theory Spec2Isabelle
  imports Complex_Main "HOL-Library.Word" "HOL-Library.AList"
begin

section \<open>JavaScript values\<close>

text \<open>
  A JavaScript string is a sequence of UTF-16 code units; \<open>length\<close>, \<open>slice\<close> and
  \<open>trim\<close> all work on code units. \<open>js\<close> embeds an ASCII literal.
\<close>

type_synonym js_string = "16 word list"

definition js :: "string \<Rightarrow> js_string" where
  "js s = map of_char s"

text \<open>
  A JavaScript number is a double. The finite doubles are embedded in the reals, next to
  the three special values; the sign of zero is not modelled. \<open>Math.min\<close>,
  \<open>Math.max\<close>, negation, the comparisons and \<open>Number.isFinite\<close> are exact on
  doubles. The result of an addition is the exact sum rounded to a double, as IEEE 754
  binary64 prescribes: to the nearest double, a tie going to the even significand, and
  to an infinity when the rounded magnitude reaches \<open>2^1024\<close>.
\<close>

datatype js_number = Fin real | PosInf | NegInf | NaN

text \<open>Rounding to the nearest integer, a tie going to the even one.\<close>

definition round_half_even :: "real \<Rightarrow> int" where
  "round_half_even t =
     (let f = \<lfloor>t\<rfloor>; d = t - of_int f
      in if d < 1 / 2 then f
         else if 1 / 2 < d then f + 1
         else if even f then f else f + 1)"

text \<open>
  The binary exponent of a real other than zero, not below that of the smallest normal
  double, and the spacing of the doubles at that exponent (52 fraction bits).
\<close>

definition double_exponent :: "real \<Rightarrow> int" where
  "double_exponent x = max \<lfloor>log 2 \<bar>x\<bar>\<rfloor> (- 1022)"

definition double_ulp :: "real \<Rightarrow> real" where
  "double_ulp x = 2 powr of_int (double_exponent x - 52)"

definition round_double :: "real \<Rightarrow> js_number" where
  "round_double x =
     (if x = 0 then Fin 0
      else
        (let y = of_int (round_half_even (x / double_ulp x)) * double_ulp x
         in if 2 powr 1024 \<le> \<bar>y\<bar> then (if 0 < x then PosInf else NegInf) else Fin y))"

text \<open>A real is a double when rounding leaves it as it is.\<close>

definition is_double :: "real \<Rightarrow> bool" where
  "is_double x \<longleftrightarrow> round_double x = Fin x"

fun Math_min :: "js_number \<Rightarrow> js_number \<Rightarrow> js_number" where
  "Math_min NaN b = NaN"
| "Math_min a NaN = NaN"
| "Math_min NegInf b = NegInf"
| "Math_min a NegInf = NegInf"
| "Math_min PosInf b = b"
| "Math_min a PosInf = a"
| "Math_min (Fin a) (Fin b) = Fin (min a b)"

fun Math_max :: "js_number \<Rightarrow> js_number \<Rightarrow> js_number" where
  "Math_max NaN b = NaN"
| "Math_max a NaN = NaN"
| "Math_max PosInf b = PosInf"
| "Math_max a PosInf = PosInf"
| "Math_max NegInf b = b"
| "Math_max a NegInf = a"
| "Math_max (Fin a) (Fin b) = Fin (max a b)"

fun Number_isFinite :: "js_number \<Rightarrow> bool" where
  "Number_isFinite (Fin a) = True"
| "Number_isFinite PosInf = False"
| "Number_isFinite NegInf = False"
| "Number_isFinite NaN = False"

fun js_add :: "js_number \<Rightarrow> js_number \<Rightarrow> js_number" where
  "js_add NaN b = NaN"
| "js_add a NaN = NaN"
| "js_add PosInf NegInf = NaN"
| "js_add NegInf PosInf = NaN"
| "js_add PosInf b = PosInf"
| "js_add a PosInf = PosInf"
| "js_add NegInf b = NegInf"
| "js_add a NegInf = NegInf"
| "js_add (Fin a) (Fin b) = round_double (a + b)"

fun js_neg :: "js_number \<Rightarrow> js_number" where
  "js_neg (Fin a) = Fin (- a)"
| "js_neg PosInf = NegInf"
| "js_neg NegInf = PosInf"
| "js_neg NaN = NaN"

definition js_sub :: "js_number \<Rightarrow> js_number \<Rightarrow> js_number" where
  "js_sub a b = js_add a (js_neg b)"

text \<open>\<open>a <= b\<close>; a comparison with \<open>NaN\<close> is false.\<close>

fun js_le :: "js_number \<Rightarrow> js_number \<Rightarrow> bool" where
  "js_le NaN b = False"
| "js_le a NaN = False"
| "js_le NegInf b = True"
| "js_le a PosInf = True"
| "js_le PosInf b = False"
| "js_le a NegInf = False"
| "js_le (Fin a) (Fin b) = (a \<le> b)"

text \<open>\<open>Math.PI\<close>: the double nearest to \<open>\<pi>\<close>, written out exactly.\<close>

definition Math_PI :: real where
  "Math_PI = 884279719003555 / 281474976710656"

text \<open>
  What a field of a received message can hold at run time. The handlers only ask
  \<open>typeof v === "number"\<close>, which is true of every \<open>JSNumber\<close>, \<open>NaN\<close> and the
  infinities included, and of nothing else.
\<close>

datatype js_value =
    JSUndefined
  | JSNull
  | JSBoolean bool
  | JSNumber js_number
  | JSString js_string

text \<open>The only exception the handlers can raise: reading a property of \<open>undefined\<close>.\<close>

datatype js_error = TypeError

section \<open>The replicated state (\<open>MyRoomState.ts\<close>)\<close>

record PlayerState =
  p_id :: js_string
  p_name :: js_string
  p_avatarKey :: js_string
  p_x :: js_number
  p_y :: js_number
  p_z :: js_number
  p_ry :: js_number

text \<open>
  \<open>players\<close> is a \<open>MapSchema\<close>: one entry per key, in insertion order. It is an
  association list here, read with \<open>map_of\<close>, written with \<open>AList.update\<close> (\<open>set\<close>)
  and \<open>AList.delete\<close> (\<open>delete\<close>); \<open>players.size === 0\<close> is \<open>players st = []\<close>.
\<close>

record MyRoomState =
  players :: "(js_string \<times> PlayerState) list"
  envKey :: js_string

text \<open>\<open>new MyRoomState()\<close>, as \<open>onCreate\<close> installs it.\<close>

definition new_MyRoomState :: MyRoomState where
  "new_MyRoomState = \<lparr>players = [], envKey = js ''office''\<rparr>"

section \<open>The room (\<open>MyRoom.ts\<close>)\<close>

subsection \<open>The \<open>move\<close> handler\<close>

text \<open>The payload \<open>{x?, y?, z?, ry?}\<close>; an absent field reads as \<open>JSUndefined\<close>.\<close>

record move_msg =
  m_x :: js_value
  m_y :: js_value
  m_z :: js_value
  m_ry :: js_value

text \<open>Lines 19-22: the four guarded assignments to the player object.\<close>

definition move_fields :: "PlayerState \<Rightarrow> move_msg \<Rightarrow> PlayerState" where
  "move_fields p msg =
     (let p1 = (case m_x msg of
                  JSNumber v \<Rightarrow> p\<lparr>p_x := Math_max (Fin (- 50)) (Math_min (Fin 50) v)\<rparr>
                | _ \<Rightarrow> p);
          p2 = (case m_y msg of
                  JSNumber v \<Rightarrow> p1\<lparr>p_y := Math_max (Fin (- 50)) (Math_min (Fin 50) v)\<rparr>
                | _ \<Rightarrow> p1);
          p3 = (case m_z msg of
                  JSNumber v \<Rightarrow> p2\<lparr>p_z := Math_max (Fin (- 50)) (Math_min (Fin 50) v)\<rparr>
                | _ \<Rightarrow> p2)
      in (case m_ry msg of
            JSNumber v \<Rightarrow> p3\<lparr>p_ry := v\<rparr>
          | _ \<Rightarrow> p3))"

text \<open>
  The handler. The payload is \<open>None\<close> when the client sent \<open>move\<close> with no payload:
  \<open>msg\<close> is then \<open>undefined\<close> and \<open>msg.x\<close> raises, but only after the lookup of the
  player has succeeded. The player object is mutated in place; here it is written back
  under its key.
\<close>

definition onMove :: "MyRoomState \<Rightarrow> js_string \<Rightarrow> move_msg option \<Rightarrow> js_error + MyRoomState" where
  "onMove st sessionId msg =
     (case map_of (players st) sessionId of
        None \<Rightarrow> Inr st
      | Some p \<Rightarrow>
          (case msg of
             None \<Rightarrow> Inl TypeError
           | Some m \<Rightarrow>
               Inr (st\<lparr>players := AList.update sessionId (move_fields p m) (players st)\<rparr>)))"

subsection \<open>The \<open>chat\<close> and \<open>emote\<close> handlers\<close>

text \<open>
  \<open>String.prototype.trim\<close> removes the code units of ECMAScript's WhiteSpace and
  LineTerminator productions from both ends.
\<close>

definition is_white_space :: "16 word \<Rightarrow> bool" where
  "is_white_space c \<longleftrightarrow> c \<in> set [0x0009, 0x000A, 0x000B, 0x000C, 0x000D, 0x0020, 0x00A0,
     0x1680, 0x2000, 0x2001, 0x2002, 0x2003, 0x2004, 0x2005, 0x2006, 0x2007, 0x2008, 0x2009,
     0x200A, 0x2028, 0x2029, 0x202F, 0x205F, 0x3000, 0xFEFF]"

definition trim :: "js_string \<Rightarrow> js_string" where
  "trim s = rev (dropWhile is_white_space (rev (dropWhile is_white_space s)))"

text \<open>\<open>s.slice(0, n)\<close> for a literal \<open>n \<ge> 0\<close>: the first \<open>n\<close> code units.\<close>

definition slice0 :: "nat \<Rightarrow> js_string \<Rightarrow> js_string" where
  "slice0 n s = take n s"

record chat_msg =
  c_text :: "js_string option"

text \<open>What \<open>this.broadcast("chat", ...)\<close> sends: the object \<open>{id, name, text, ts}\<close>.\<close>

record chat_payload =
  chat_id :: js_string
  chat_name :: js_string
  chat_text :: js_string
  chat_ts :: nat

text \<open>
  \<open>(msg?.text ?? "").toString()\<close>: the empty string when the payload or its
  \<open>text\<close> is missing; \<open>toString\<close> is the identity on a string.
\<close>

definition text_or_empty :: "chat_msg option \<Rightarrow> js_string" where
  "text_or_empty msg =
     (case msg of
        None \<Rightarrow> []
      | Some m \<Rightarrow> (case c_text m of None \<Rightarrow> [] | Some t \<Rightarrow> t))"

text \<open>
  The handler returns the broadcast it makes, if any; it does not touch the state.
  \<open>now\<close> is \<open>Date.now()\<close>.
\<close>

definition onChat :: "MyRoomState \<Rightarrow> nat \<Rightarrow> js_string \<Rightarrow> chat_msg option \<Rightarrow> chat_payload option" where
  "onChat st now sessionId msg =
     (let text = trim (text_or_empty msg)
      in if text = [] then None
         else
           (let name = (case map_of (players st) sessionId of
                          None \<Rightarrow> js ''Guest''
                        | Some p \<Rightarrow> p_name p)
            in Some \<lparr>chat_id = sessionId, chat_name = name,
                      chat_text = slice0 500 text, chat_ts = now\<rparr>))"

record emote_msg =
  e_emote :: "js_string option"

definition onEmote :: "js_string \<Rightarrow> emote_msg option \<Rightarrow> (js_string \<times> js_string) option" where
  "onEmote sessionId data =
     (let emote = (case data of
                     None \<Rightarrow> []
                   | Some d \<Rightarrow> (case e_emote d of None \<Rightarrow> [] | Some e \<Rightarrow> e))
      in if emote = [] then None else Some (sessionId, emote))"

subsection \<open>\<open>onJoin\<close>\<close>

record JoinOptions =
  o_name :: "js_string option"
  o_avatarKey :: "js_string option"
  o_envKey :: "js_string option"

text \<open>\<open>options?.f ?? d\<close>.\<close>

definition option_or :: "JoinOptions option \<Rightarrow> (JoinOptions \<Rightarrow> js_string option) \<Rightarrow> js_string \<Rightarrow> js_string" where
  "option_or options f d =
     (case options of
        None \<Rightarrow> d
      | Some opt \<Rightarrow> (case f opt of None \<Rightarrow> d | Some s \<Rightarrow> s))"

definition onJoin :: "MyRoomState \<Rightarrow> js_string \<Rightarrow> JoinOptions option \<Rightarrow> MyRoomState" where
  "onJoin st sessionId options =
     (let st1 = (if players st = [] then
                   (let requested = option_or options o_envKey []
                    in st\<lparr>envKey := (if requested = js ''whitespace''
                                      then js ''whitespace'' else js ''office'')\<rparr>)
                 else st);
          p = \<lparr>p_id = sessionId,
               p_name = slice0 32 (option_or options o_name (js ''Guest'')),
               p_avatarKey = option_or options o_avatarKey (js ''a1''),
               p_x = Fin 0, p_y = Fin 1, p_z = Fin (- 2), p_ry = Fin Math_PI\<rparr>
      in st1\<lparr>players := AList.update sessionId p (players st1)\<rparr>)"

subsection \<open>\<open>onLeave\<close>\<close>

text \<open>
  \<open>allowReconnection\<close> is the framework's: the promise it returns resolves when the
  client comes back within the given number of seconds and rejects otherwise. It is a
  parameter here, giving the way the promise settles. \<open>onLeave\<close> does nothing before
  the \<open>await\<close>, so the state it is given is the state at the moment the promise
  settles; other handlers may have run since the disconnection.
\<close>

datatype reconnection = Reconnected | Rejected

definition onLeave ::
  "(js_string \<Rightarrow> nat \<Rightarrow> reconnection) \<Rightarrow> MyRoomState \<Rightarrow> js_string \<Rightarrow> bool \<Rightarrow> MyRoomState" where
  "onLeave allowReconnection st sessionId consented =
     (case allowReconnection sessionId 5 of
        Reconnected \<Rightarrow> st
      | Rejected \<Rightarrow> st\<lparr>players := AList.delete sessionId (players st)\<rparr>)"

subsection \<open>A room's history\<close>

text \<open>
  The room handles one event at a time. A \<open>Leave\<close> event is the moment the
  reconnection promise of a disconnected session settles, and carries how it settled.
  A history stops at the first handler that raises.
\<close>

datatype event =
    Join js_string "JoinOptions option"
  | Move js_string "move_msg option"
  | Chat js_string "chat_msg option"
  | Emote js_string "emote_msg option"
  | Leave js_string bool reconnection

fun step :: "MyRoomState \<Rightarrow> event \<Rightarrow> js_error + MyRoomState" where
  "step st (Join sessionId options) = Inr (onJoin st sessionId options)"
| "step st (Move sessionId msg) = onMove st sessionId msg"
| "step st (Chat sessionId msg) = Inr st"
| "step st (Emote sessionId data) = Inr st"
| "step st (Leave sessionId consented r) = Inr (onLeave (\<lambda>c s. r) st sessionId consented)"

fun run :: "MyRoomState \<Rightarrow> event list \<Rightarrow> js_error + MyRoomState" where
  "run st [] = Inr st"
| "run st (e # es) = (case step st e of Inl err \<Rightarrow> Inl err | Inr st' \<Rightarrow> run st' es)"

subsection \<open>Vocabulary for the properties of the room\<close>

text \<open>A stored coordinate lies in the interval from \<open>-50\<close> to \<open>50\<close>.\<close>

definition within50 :: "js_number \<Rightarrow> bool" where
  "within50 v \<longleftrightarrow> js_le (Fin (- 50)) v \<and> js_le v (Fin 50)"

fun session_of :: "event \<Rightarrow> js_string" where
  "session_of (Join sessionId options) = sessionId"
| "session_of (Move sessionId msg) = sessionId"
| "session_of (Chat sessionId msg) = sessionId"
| "session_of (Emote sessionId data) = sessionId"
| "session_of (Leave sessionId consented r) = sessionId"

text \<open>Every join of the history arrives while the players map has an entry.\<close>

fun joins_find_members :: "MyRoomState \<Rightarrow> event list \<Rightarrow> bool" where
  "joins_find_members st [] = True"
| "joins_find_members st (e # es) =
     ((case e of Join sessionId options \<Rightarrow> players st \<noteq> [] | _ \<Rightarrow> True)
      \<and> (case step st e of Inl err \<Rightarrow> True | Inr st' \<Rightarrow> joins_find_members st' es))"

text \<open>Example data: the player a join without options creates, and two small rooms.\<close>

definition guest :: "js_string \<Rightarrow> PlayerState" where
  "guest sessionId = \<lparr>p_id = sessionId, p_name = js ''Guest'', p_avatarKey = js ''a1'',
     p_x = Fin 0, p_y = Fin 1, p_z = Fin (- 2), p_ry = Fin Math_PI\<rparr>"

definition room_of_one :: MyRoomState where
  "room_of_one = onJoin new_MyRoomState (js ''s1'') None"

definition wants :: "string \<Rightarrow> JoinOptions option" where
  "wants env = Some \<lparr>o_name = None, o_avatarKey = None, o_envKey = Some (js env)\<rparr>"

definition room_of_A :: MyRoomState where
  "room_of_A = onJoin new_MyRoomState (js ''A'') (wants ''whitespace'')"

definition spaces_then_letters :: "nat \<Rightarrow> nat \<Rightarrow> js_string" where
  "spaces_then_letters m n = replicate m 0x0020 @ replicate n 0x0061"

section \<open>The collision index of the client\<close>

subsection \<open>Vectors and boxes\<close>

record Vector3 =
  v_x :: js_number
  v_y :: js_number
  v_z :: js_number

record Box3 =
  b_min :: Vector3
  b_max :: Vector3

text \<open>\<open>new THREE.Box3()\<close>: the empty box.\<close>

definition new_Box3 :: Box3 where
  "new_Box3 = \<lparr>b_min = \<lparr>v_x = PosInf, v_y = PosInf, v_z = PosInf\<rparr>,
                b_max = \<lparr>v_x = NegInf, v_y = NegInf, v_z = NegInf\<rparr>\<rparr>"

definition addScalar :: "Vector3 \<Rightarrow> js_number \<Rightarrow> Vector3" where
  "addScalar v s = \<lparr>v_x = js_add (v_x v) s, v_y = js_add (v_y v) s, v_z = js_add (v_z v) s\<rparr>"

text \<open>\<open>Box3.expandByScalar\<close>: \<open>min.addScalar(-scalar); max.addScalar(scalar)\<close>.\<close>

definition expandByScalar :: "Box3 \<Rightarrow> js_number \<Rightarrow> Box3" where
  "expandByScalar b scalar =
     \<lparr>b_min = addScalar (b_min b) (js_neg scalar), b_max = addScalar (b_max b) scalar\<rparr>"

text \<open>
  \<open>Box3.containsPoint\<close>: the point lies between \<open>min\<close> and \<open>max\<close> on each axis,
  bounds included. (Older releases of the library write the test as the negation of six
  strict comparisons; the two forms agree wherever no coordinate is \<open>NaN\<close>.)
\<close>

definition containsPoint :: "Box3 \<Rightarrow> Vector3 \<Rightarrow> bool" where
  "containsPoint b point \<longleftrightarrow>
     js_le (v_x (b_min b)) (v_x point) \<and> js_le (v_x point) (v_x (b_max b))
     \<and> js_le (v_y (b_min b)) (v_y point) \<and> js_le (v_y point) (v_y (b_max b))
     \<and> js_le (v_z (b_min b)) (v_z point) \<and> js_le (v_z point) (v_z (b_max b))"

subsection \<open>\<open>isBlocked\<close>\<close>

definition PLAYER_GROUND_Y :: js_number where
  "PLAYER_GROUND_Y = Fin 0.5"

text \<open>The literal \<open>0.45\<close> denotes the double nearest to it.\<close>

definition double_0_45 :: real where
  "double_0_45 = 8106479329266893 / 18014398509481984"

definition radius :: js_number where
  "radius = Fin double_0_45"

text \<open>Line 174: the sample point, at a fixed height.\<close>

definition probe :: "Vector3 \<Rightarrow> Vector3" where
  "probe nextPos =
     \<lparr>v_x = v_x nextPos, v_y = js_add PLAYER_GROUND_Y (Fin 1.0), v_z = v_z nextPos\<rparr>"

text \<open>The \<open>for\<close> loop over \<open>colliderBoxesRef.current\<close>, leaving at the first hit.\<close>

fun anyBoxContains :: "Box3 list \<Rightarrow> Vector3 \<Rightarrow> bool" where
  "anyBoxContains [] p = False"
| "anyBoxContains (b # bs) p =
     (let expanded = expandByScalar b radius
      in if containsPoint expanded p then True else anyBoxContains bs p)"

definition isBlocked :: "Box3 list \<Rightarrow> Vector3 \<Rightarrow> bool" where
  "isBlocked colliderBoxes nextPos = anyBoxContains colliderBoxes (probe nextPos)"

subsection \<open>The sphere test the specification compares with\<close>

text \<open>Vectors and boxes with finite coordinates.\<close>

definition fvec :: "real \<Rightarrow> real \<Rightarrow> real \<Rightarrow> Vector3" where
  "fvec a b c = \<lparr>v_x = Fin a, v_y = Fin b, v_z = Fin c\<rparr>"

definition fbox :: "real \<times> real \<times> real \<Rightarrow> real \<times> real \<times> real \<Rightarrow> Box3" where
  "fbox lo hi =
     (case (lo, hi) of ((a, b, c), (d, e, f)) \<Rightarrow> \<lparr>b_min = fvec a b c, b_max = fvec d e f\<rparr>)"

definition clamp :: "real \<Rightarrow> real \<Rightarrow> real \<Rightarrow> real" where
  "clamp lo hi v = max lo (min hi v)"

text \<open>
  Following the specification's words, not the source: the unexpanded box \<open>lo..hi\<close>
  against the sphere of radius \<open>r\<close> centred at \<open>c\<close>. The sphere reaches the box when
  the point of the box nearest to the centre is at most \<open>r\<close> away.
\<close>

definition sphereTouchesBox ::
  "real \<times> real \<times> real \<Rightarrow> real \<Rightarrow> real \<times> real \<times> real \<Rightarrow> real \<times> real \<times> real \<Rightarrow> bool" where
  "sphereTouchesBox centre r lo hi =
     (case (centre, lo, hi) of ((cx, cy, cz), (a, b, c), (d, e, f)) \<Rightarrow>
        (cx - clamp a d cx)\<^sup>2 + (cy - clamp b e cy)\<^sup>2 + (cz - clamp c f cz)\<^sup>2 \<le> r\<^sup>2)"

subsection \<open>Building the boxes (\<open>loadEnvironment\<close>, lines 250-288)\<close>

text \<open>
  One object of the traversal of the collider scene. \<open>o_boundingBox\<close> is the
  geometry's local bounding box once \<open>computeBoundingBox\<close> has been asked for it;
  it is \<open>None\<close> for a mesh without geometry or without a bounding box, the two cases
  the callback returns on. The matrix type and \<open>Box3.applyMatrix4\<close> are the
  library's and are parameters.
\<close>

record 'm Object3D =
  o_isMesh :: bool
  o_boundingBox :: "Box3 option"
  o_matrixWorld :: 'm

text \<open>
  The variables the traversal callback closes over: the one \<open>tempBox\<close> object it
  reuses for every mesh, and the array \<open>boxes\<close>.
\<close>

record build =
  tempBox :: Box3
  boxes :: "Box3 list"

text \<open>The literal \<open>0.05\<close> denotes the double nearest to it.\<close>

definition double_0_05 :: real where
  "double_0_05 = 3602879701896397 / 72057594037927936"

text \<open>Lines 276-280: the four updates of \<open>tempBox\<close> by \<open>shrink\<close>.\<close>

definition shrinkTemp :: "Box3 \<Rightarrow> Box3" where
  "shrinkTemp t =
     (let shrink = Fin double_0_05;
          t1 = t\<lparr>b_min := (b_min t)\<lparr>v_x := js_add (v_x (b_min t)) shrink\<rparr>\<rparr>;
          t2 = t1\<lparr>b_min := (b_min t1)\<lparr>v_z := js_add (v_z (b_min t1)) shrink\<rparr>\<rparr>;
          t3 = t2\<lparr>b_max := (b_max t2)\<lparr>v_x := js_sub (v_x (b_max t2)) shrink\<rparr>\<rparr>
      in t3\<lparr>b_max := (b_max t3)\<lparr>v_z := js_sub (v_z (b_max t3)) shrink\<rparr>\<rparr>)"

text \<open>
  The callback, in the order of the source: \<open>tempBox\<close> receives the world box;
  if its \<open>min.x\<close> is finite, \<open>tempBox.clone()\<close>, a copy of its value at that
  moment, is pushed, and only then is \<open>tempBox\<close> itself shrunk.
\<close>

definition visit :: "(Box3 \<Rightarrow> 'm \<Rightarrow> Box3) \<Rightarrow> build \<Rightarrow> 'm Object3D \<Rightarrow> build" where
  "visit applyMatrix4 s obj =
     (if \<not> o_isMesh obj then s
      else
        (case o_boundingBox obj of
           None \<Rightarrow> s
         | Some localBounds \<Rightarrow>
             (let s1 = s\<lparr>tempBox := applyMatrix4 localBounds (o_matrixWorld obj)\<rparr>
              in if Number_isFinite (v_x (b_min (tempBox s1))) then
                   (let s2 = s1\<lparr>boxes := boxes s1 @ [tempBox s1]\<rparr>
                    in s2\<lparr>tempBox := shrinkTemp (tempBox s2)\<rparr>)
                 else s1)))"

text \<open>\<open>col.traverse\<close> over the objects in visiting order; the result is what
  \<open>colliderBoxesRef.current\<close> receives.\<close>

definition buildColliderBoxes :: "(Box3 \<Rightarrow> 'm \<Rightarrow> Box3) \<Rightarrow> 'm Object3D list \<Rightarrow> Box3 list" where
  "buildColliderBoxes applyMatrix4 objs =
     boxes (foldl (visit applyMatrix4) \<lparr>tempBox = new_Box3, boxes = []\<rparr> objs)"

subsection \<open>Vocabulary for the properties of the boxes\<close>

text \<open>The world-space box computed for a proxy mesh, if the object is one.\<close>

definition worldBox :: "(Box3 \<Rightarrow> 'm \<Rightarrow> Box3) \<Rightarrow> 'm Object3D \<Rightarrow> Box3 option" where
  "worldBox applyMatrix4 obj =
     (if o_isMesh obj then
        (case o_boundingBox obj of
           None \<Rightarrow> None
         | Some localBounds \<Rightarrow> Some (applyMatrix4 localBounds (o_matrixWorld obj)))
      else None)"

definition finiteExtents :: "Box3 \<Rightarrow> bool" where
  "finiteExtents b \<longleftrightarrow>
     Number_isFinite (v_x (b_min b)) \<and> Number_isFinite (v_y (b_min b))
     \<and> Number_isFinite (v_z (b_min b)) \<and> Number_isFinite (v_x (b_max b))
     \<and> Number_isFinite (v_y (b_max b)) \<and> Number_isFinite (v_z (b_max b))"

definition js_lt :: "js_number \<Rightarrow> js_number \<Rightarrow> bool" where
  "js_lt a b \<longleftrightarrow> js_le a b \<and> a \<noteq> b"

definition minBelowMax :: "Box3 \<Rightarrow> bool" where
  "minBelowMax b \<longleftrightarrow>
     js_lt (v_x (b_min b)) (v_x (b_max b)) \<and> js_lt (v_y (b_min b)) (v_y (b_max b))
     \<and> js_lt (v_z (b_min b)) (v_z (b_max b))"

text \<open>
  The doubles nearest to the decimals \<open>0.1\<close>, \<open>0.55\<close>, \<open>0.95\<close>, \<open>1.45\<close> and
  \<open>2.45\<close>, for the examples.
\<close>

definition double_0_1 :: real where
  "double_0_1 = 3602879701896397 / 36028797018963968"

definition double_0_55 :: real where
  "double_0_55 = 2476979795053773 / 4503599627370496"

definition double_0_95 :: real where
  "double_0_95 = 4278419646001971 / 4503599627370496"

definition double_1_45 :: real where
  "double_1_45 = 6530219459687219 / 4503599627370496"

definition double_2_45 :: real where
  "double_2_45 = 2758454771764429 / 1125899906842624"

text \<open>Example data: a mesh whose world box is the given box, and a group node.\<close>

definition mesh :: "Box3 \<Rightarrow> unit Object3D" where
  "mesh b = \<lparr>o_isMesh = True, o_boundingBox = Some b, o_matrixWorld = ()\<rparr>"

definition group :: "unit Object3D" where
  "group = \<lparr>o_isMesh = False, o_boundingBox = None, o_matrixWorld = ()\<rparr>"

definition unitCube :: Box3 where
  "unitCube = fbox (0, 0, 0) (1, 1, 1)"

definition floorPlane :: Box3 where
  "floorPlane = fbox (0, 0, 0) (1, 0, 1)"

section \<open>The animation state of the client\<close>

datatype AnimKey = Idle | Walk | Wave

text \<open>
  The part of \<open>PlayerRig\<close> the transitions read and write, and the number of
  \<open>onFinished\<close> closures registered on the rig's mixer. The calls that fade and play
  the clips go to the animation library and feed nothing back into these fields.
\<close>

record PlayerRig =
  current :: AnimKey
  emoteActive :: bool
  finishedListeners :: nat

text \<open>The rig \<open>ensureRig\<close> creates.\<close>

definition new_rig :: PlayerRig where
  "new_rig = \<lparr>current = Idle, emoteActive = False, finishedListeners = 0\<rparr>"

definition setBaseAnim :: "PlayerRig \<Rightarrow> AnimKey \<Rightarrow> PlayerRig" where
  "setBaseAnim rig next =
     (if emoteActive rig then rig
      else if current rig = next then rig
      else rig\<lparr>current := next\<rparr>)"

definition playWave :: "PlayerRig \<Rightarrow> PlayerRig" where
  "playWave rig =
     (if emoteActive rig then rig
      else rig\<lparr>emoteActive := True, finishedListeners := finishedListeners rig + 1\<rparr>)"

text \<open>
  The closure \<open>onFinished\<close>, called with the action of the event: it ignores every
  action but the wave action, and otherwise removes itself and resets the rig.
\<close>

definition onFinished :: "AnimKey \<Rightarrow> PlayerRig \<Rightarrow> PlayerRig" where
  "onFinished action rig =
     (if action \<noteq> Wave then rig
      else rig\<lparr>finishedListeners := finishedListeners rig - 1,
               emoteActive := False, current := Idle\<rparr>)"

text \<open>
  The mixer reports that a clip has completed: it calls each listener registered at
  that moment once.
\<close>

definition dispatchFinished :: "PlayerRig \<Rightarrow> AnimKey \<Rightarrow> PlayerRig" where
  "dispatchFinished rig action = (onFinished action ^^ finishedListeners rig) rig"

section \<open>Properties of the room\<close>

lemma room_of_one_eq:
  "room_of_one = \<lparr>players = [(js ''s1'', guest (js ''s1''))], envKey = js ''office''\<rparr>"
  by (simp add: room_of_one_def onJoin_def new_MyRoomState_def guest_def option_or_def
      slice0_def js_def)

lemma room_of_A_eq:
  "room_of_A = \<lparr>players = [(js ''A'', guest (js ''A''))], envKey = js ''whitespace''\<rparr>"
  by (simp add: room_of_A_def wants_def onJoin_def new_MyRoomState_def guest_def option_or_def
      slice0_def js_def)

subsection \<open>Moves\<close>

text \<open>
  C10. A \<open>move\<close> message from a session that has no entry in the players map changes
  nothing, neither the players map nor \<open>envKey\<close>, and raises no error, whatever the
  payload is (a missing payload included).
\<close>

theorem move_unknown_session_noop:
  "map_of (players st) sessionId = None \<Longrightarrow> onMove st sessionId msg = Inr st"
  by (simp add: onMove_def)

text \<open>
  The theorem in a room whose only player is A, at a message from a session B that
  never joined, with a payload and without one.
\<close>

theorem move_unknown_session_noop_witness:
  "map_of (players room_of_A) (js ''B'') = None
   \<and> onMove room_of_A (js ''B'')
        (Some \<lparr>m_x = JSNumber (Fin 3), m_y = JSNumber (Fin 1), m_z = JSNumber (Fin 4),
               m_ry = JSNumber (Fin 0)\<rparr>) = Inr room_of_A
   \<and> onMove room_of_A (js ''B'') None = Inr room_of_A"
  using move_unknown_session_noop [of room_of_A "js ''B''"
      "Some \<lparr>m_x = JSNumber (Fin 3), m_y = JSNumber (Fin 1), m_z = JSNumber (Fin 4),
               m_ry = JSNumber (Fin 0)\<rparr>"]
    move_unknown_session_noop [of room_of_A "js ''B''" None]
  by (simp add: room_of_A_eq js_def)

lemma clamp_within50:
  "v \<noteq> NaN \<Longrightarrow> within50 (Math_max (Fin (- 50)) (Math_min (Fin 50) v))"
  by (cases v) (simp_all add: within50_def)

text \<open>
  C1, as the code has it. A \<open>move\<close> message with a payload, from a session that has a
  PlayerState, is never rejected as a whole: the handler returns normally, the session
  keeps one PlayerState and \<open>envKey\<close> is untouched. Each of \<open>x\<close>, \<open>y\<close>, \<open>z\<close> whose
  value is of type number and is not \<open>NaN\<close> is stored clamped, so the stored value
  lies between \<open>-50\<close> and \<open>50\<close>; that includes the infinities, which are stored as
  \<open>50\<close> and \<open>-50\<close>. \<open>ry\<close> is stored as received whenever it is of type number,
  finite or not. A field that is missing or not of type number leaves the stored value
  as it was.
\<close>

theorem move_partial_update:
  assumes "map_of (players st) sessionId = Some p"
  shows "(\<exists>st'. onMove st sessionId (Some msg) = Inr st'
            \<and> map_of (players st') sessionId = Some (move_fields p msg)
            \<and> envKey st' = envKey st)
    \<and> (\<forall>v. m_x msg = JSNumber v \<longrightarrow> v \<noteq> NaN \<longrightarrow>
          p_x (move_fields p msg) = Math_max (Fin (- 50)) (Math_min (Fin 50) v)
          \<and> within50 (p_x (move_fields p msg)))
    \<and> (\<forall>v. m_y msg = JSNumber v \<longrightarrow> v \<noteq> NaN \<longrightarrow>
          p_y (move_fields p msg) = Math_max (Fin (- 50)) (Math_min (Fin 50) v)
          \<and> within50 (p_y (move_fields p msg)))
    \<and> (\<forall>v. m_z msg = JSNumber v \<longrightarrow> v \<noteq> NaN \<longrightarrow>
          p_z (move_fields p msg) = Math_max (Fin (- 50)) (Math_min (Fin 50) v)
          \<and> within50 (p_z (move_fields p msg)))
    \<and> (\<forall>v. m_ry msg = JSNumber v \<longrightarrow> p_ry (move_fields p msg) = v)
    \<and> ((\<forall>v. m_x msg \<noteq> JSNumber v) \<longrightarrow> p_x (move_fields p msg) = p_x p)
    \<and> ((\<forall>v. m_y msg \<noteq> JSNumber v) \<longrightarrow> p_y (move_fields p msg) = p_y p)
    \<and> ((\<forall>v. m_z msg \<noteq> JSNumber v) \<longrightarrow> p_z (move_fields p msg) = p_z p)
    \<and> ((\<forall>v. m_ry msg \<noteq> JSNumber v) \<longrightarrow> p_ry (move_fields p msg) = p_ry p)"
proof -
  have stored: "\<exists>st'. onMove st sessionId (Some msg) = Inr st'
            \<and> map_of (players st') sessionId = Some (move_fields p msg)
            \<and> envKey st' = envKey st"
    using assms by (simp add: onMove_def update_conv')
  have fx: "\<And>v. m_x msg = JSNumber v \<Longrightarrow>
      p_x (move_fields p msg) = Math_max (Fin (- 50)) (Math_min (Fin 50) v)"
    by (simp add: move_fields_def Let_def split: js_value.splits)
  have fy: "\<And>v. m_y msg = JSNumber v \<Longrightarrow>
      p_y (move_fields p msg) = Math_max (Fin (- 50)) (Math_min (Fin 50) v)"
    by (simp add: move_fields_def Let_def split: js_value.splits)
  have fz: "\<And>v. m_z msg = JSNumber v \<Longrightarrow>
      p_z (move_fields p msg) = Math_max (Fin (- 50)) (Math_min (Fin 50) v)"
    by (simp add: move_fields_def Let_def split: js_value.splits)
  have fry: "\<And>v. m_ry msg = JSNumber v \<Longrightarrow> p_ry (move_fields p msg) = v"
    by (simp add: move_fields_def Let_def split: js_value.splits)
  have ux: "(\<forall>v. m_x msg \<noteq> JSNumber v) \<Longrightarrow> p_x (move_fields p msg) = p_x p"
    by (simp add: move_fields_def Let_def split: js_value.splits)
  have uy: "(\<forall>v. m_y msg \<noteq> JSNumber v) \<Longrightarrow> p_y (move_fields p msg) = p_y p"
    by (simp add: move_fields_def Let_def split: js_value.splits)
  have uz: "(\<forall>v. m_z msg \<noteq> JSNumber v) \<Longrightarrow> p_z (move_fields p msg) = p_z p"
    by (simp add: move_fields_def Let_def split: js_value.splits)
  have ury: "(\<forall>v. m_ry msg \<noteq> JSNumber v) \<Longrightarrow> p_ry (move_fields p msg) = p_ry p"
    by (simp add: move_fields_def Let_def split: js_value.splits)
  show ?thesis
    using stored fx fy fz fry ux uy uz ury clamp_within50 by simp
qed

text \<open>
  The theorem at a message \<open>{x: 120, z: -Infinity, ry: "7"}\<close> for the only player of
  a room: \<open>x\<close> becomes 50, \<open>z\<close> becomes -50, \<open>y\<close> and \<open>ry\<close> stay.
\<close>

theorem move_partial_update_witness:
  "map_of (players room_of_one) (js ''s1'') = Some (guest (js ''s1''))
   \<and> onMove room_of_one (js ''s1'')
        (Some \<lparr>m_x = JSNumber (Fin 120), m_y = JSUndefined, m_z = JSNumber NegInf,
               m_ry = JSString (js ''7'')\<rparr>)
      = Inr \<lparr>players = [(js ''s1'', (guest (js ''s1''))\<lparr>p_x := Fin 50, p_z := Fin (- 50)\<rparr>)],
             envKey = js ''office''\<rparr>
   \<and> within50 (Fin 50) \<and> within50 (Fin (- 50))"
  using move_partial_update [of room_of_one "js ''s1''" "guest (js ''s1'')"
      "\<lparr>m_x = JSNumber (Fin 120), m_y = JSUndefined, m_z = JSNumber NegInf,
               m_ry = JSString (js ''7'')\<rparr>"]
  by (simp add: room_of_one_eq onMove_def move_fields_def within50_def)

text \<open>
  C1 as stated fails: a non-finite field does not leave the stored value unchanged.
  The message \<open>{x: Infinity, y: NaN, ry: -Infinity}\<close> for a player at the spawn point
  (\<open>x = 0\<close>, \<open>y = 1\<close>, \<open>ry = Math.PI\<close>) stores \<open>x = 50\<close>, \<open>y = NaN\<close>, which is
  not within the interval, and \<open>ry = -Infinity\<close>.
\<close>

theorem move_nonfinite_counterexample:
  "map_of (players room_of_one) (js ''s1'') = Some (guest (js ''s1''))
   \<and> p_x (guest (js ''s1'')) = Fin 0
   \<and> p_y (guest (js ''s1'')) = Fin 1
   \<and> p_ry (guest (js ''s1'')) = Fin Math_PI
   \<and> onMove room_of_one (js ''s1'')
        (Some \<lparr>m_x = JSNumber PosInf, m_y = JSNumber NaN, m_z = JSUndefined,
               m_ry = JSNumber NegInf\<rparr>)
      = Inr \<lparr>players = [(js ''s1'',
                (guest (js ''s1''))\<lparr>p_x := Fin 50, p_y := NaN, p_ry := NegInf\<rparr>)],
             envKey = js ''office''\<rparr>
   \<and> Fin 50 \<noteq> Fin 0 \<and> NaN \<noteq> Fin 1 \<and> \<not> within50 NaN \<and> NegInf \<noteq> Fin Math_PI"
  by (simp add: room_of_one_eq onMove_def move_fields_def within50_def guest_def)

subsection \<open>Joins and the environment key\<close>

text \<open>
  C9. Client A joins the new, empty room asking for \<open>whitespace\<close>: \<open>envKey\<close>
  becomes \<open>whitespace\<close>. Client B then joins the room, which is no longer empty, asking
  for \<open>office\<close>: \<open>envKey\<close> is still \<open>whitespace\<close>.
\<close>

theorem first_join_sets_envKey_scenario:
  "envKey (onJoin new_MyRoomState (js ''A'') (wants ''whitespace'')) = js ''whitespace''
   \<and> players (onJoin new_MyRoomState (js ''A'') (wants ''whitespace'')) \<noteq> []
   \<and> envKey (onJoin (onJoin new_MyRoomState (js ''A'') (wants ''whitespace''))
               (js ''B'') (wants ''office''))
     = js ''whitespace''"
  by (simp add: onJoin_def new_MyRoomState_def option_or_def wants_def Let_def)


lemma onJoin_envKey_empty:
  "players st = [] \<Longrightarrow>
     envKey (onJoin st sessionId options) =
       (if option_or options o_envKey [] = js ''whitespace''
        then js ''whitespace'' else js ''office'')"
  by (simp add: onJoin_def Let_def)

lemma onJoin_envKey_members:
  "players st \<noteq> [] \<Longrightarrow> envKey (onJoin st sessionId options) = envKey st"
  by (simp add: onJoin_def Let_def)

lemma onMove_envKey:
  "onMove st sessionId msg = Inr st' \<Longrightarrow> envKey st' = envKey st"
  by (auto simp: onMove_def split: option.splits)

lemma onLeave_envKey:
  "envKey (onLeave allowReconnection st sessionId consented) = envKey st"
  by (simp add: onLeave_def split: reconnection.splits)

lemma step_envKey:
  "step st e = Inr st' \<Longrightarrow> (case e of Join sessionId options \<Rightarrow> players st \<noteq> [] | _ \<Rightarrow> True)
     \<Longrightarrow> envKey st' = envKey st"
  by (cases e) (auto simp: onJoin_envKey_members onMove_envKey onLeave_envKey)

lemma run_envKey:
  "run st es = Inr st' \<Longrightarrow> joins_find_members st es \<Longrightarrow> envKey st' = envKey st"
proof (induction es arbitrary: st)
  case Nil
  then show ?case by simp
next
  case (Cons e es)
  from Cons.prems(1) obtain st1 where s1: "step st e = Inr st1" and r1: "run st1 es = Inr st'"
    by (auto split: sum.splits)
  from Cons.prems(2) s1 have j1: "joins_find_members st1 es"
    and g: "(case e of Join sessionId options \<Rightarrow> players st \<noteq> [] | _ \<Rightarrow> True)"
    by simp_all
  have "envKey st' = envKey st1" using Cons.IH [OF r1 j1] .
  also have "envKey st1 = envKey st" using step_envKey [OF s1 g] .
  finally show ?case .
qed

text \<open>
  C2, as the code has it. \<open>envKey\<close> is assigned by every join that arrives while the
  players map is empty, to \<open>whitespace\<close> if that is what the join asks for and to
  \<open>office\<close> otherwise; and no other event changes it: through any history of joins,
  moves, chats, emotes and settled leaves in which every join finds the players map
  non-empty, \<open>envKey\<close> keeps its value.
\<close>

theorem envKey_assigned_only_by_join_into_empty_room:
  "(players st = [] \<longrightarrow>
      envKey (onJoin st sessionId options) =
        (if option_or options o_envKey [] = js ''whitespace''
         then js ''whitespace'' else js ''office''))
   \<and> (run st es = Inr st' \<and> joins_find_members st es \<longrightarrow> envKey st' = envKey st)"
  using onJoin_envKey_empty run_envKey by blast

text \<open>
  The theorem at the first join of a new room, and at a history of a room that A has
  set to \<open>whitespace\<close>: B joins asking for \<open>office\<close>, A moves, A's reconnection
  window expires, C joins asking for \<open>office\<close>, B disconnects and comes back.
\<close>

theorem envKey_assigned_only_by_join_into_empty_room_witness:
  "players new_MyRoomState = []
   \<and> envKey (onJoin new_MyRoomState (js ''A'') (wants ''whitespace'')) = js ''whitespace''
   \<and> run room_of_A
        [Join (js ''B'') (wants ''office''),
         Move (js ''A'') (Some \<lparr>m_x = JSNumber (Fin 3), m_y = JSUndefined, m_z = JSUndefined,
                                 m_ry = JSUndefined\<rparr>),
         Leave (js ''A'') False Rejected,
         Join (js ''C'') (wants ''office''),
         Leave (js ''B'') True Reconnected]
      = Inr \<lparr>players = [(js ''B'', guest (js ''B'')), (js ''C'', guest (js ''C''))],
             envKey = js ''whitespace''\<rparr>
   \<and> joins_find_members room_of_A
        [Join (js ''B'') (wants ''office''),
         Move (js ''A'') (Some \<lparr>m_x = JSNumber (Fin 3), m_y = JSUndefined, m_z = JSUndefined,
                                 m_ry = JSUndefined\<rparr>),
         Leave (js ''A'') False Rejected,
         Join (js ''C'') (wants ''office''),
         Leave (js ''B'') True Reconnected]
   \<and> envKey room_of_A = js ''whitespace''"
  using envKey_assigned_only_by_join_into_empty_room
      [of new_MyRoomState "js ''A''" "wants ''whitespace''" "[]" new_MyRoomState]
    envKey_assigned_only_by_join_into_empty_room
      [of room_of_A "js ''B''" None
        "[Join (js ''B'') (wants ''office''),
          Move (js ''A'') (Some \<lparr>m_x = JSNumber (Fin 3), m_y = JSUndefined,
                                  m_z = JSUndefined, m_ry = JSUndefined\<rparr>),
          Leave (js ''A'') False Rejected,
          Join (js ''C'') (wants ''office''),
          Leave (js ''B'') True Reconnected]"
        "\<lparr>players = [(js ''B'', guest (js ''B'')), (js ''C'', guest (js ''C''))],
             envKey = js ''whitespace''\<rparr>"]
  by (simp add: room_of_A_eq wants_def onJoin_def onMove_def onLeave_def move_fields_def
      new_MyRoomState_def guest_def option_or_def slice0_def js_def)

text \<open>
  C2 as stated fails: \<open>envKey\<close> is not assigned once for the lifetime of the room.
  The room is not disposed when it empties. A joins the new room asking for
  \<open>whitespace\<close>; A's reconnection window expires, which empties the players map; B
  joins asking for \<open>office\<close>: \<open>envKey\<close>, which was \<open>whitespace\<close>, is now
  \<open>office\<close>.
\<close>

theorem envKey_reassigned_counterexample:
  "run new_MyRoomState [Join (js ''A'') (wants ''whitespace'')]
     = Inr \<lparr>players = [(js ''A'', guest (js ''A''))], envKey = js ''whitespace''\<rparr>
   \<and> run new_MyRoomState
        [Join (js ''A'') (wants ''whitespace''),
         Leave (js ''A'') False Rejected,
         Join (js ''B'') (wants ''office'')]
     = Inr \<lparr>players = [(js ''B'', guest (js ''B''))], envKey = js ''office''\<rparr>
   \<and> js ''office'' \<noteq> js ''whitespace''"
  by (simp add: wants_def onJoin_def onLeave_def
      new_MyRoomState_def guest_def option_or_def slice0_def js_def)


subsection \<open>Leaving and reconnecting\<close>

lemma onJoin_other:
  "sessionId' \<noteq> sessionId \<Longrightarrow>
     map_of (players (onJoin st sessionId' options)) sessionId = map_of (players st) sessionId"
  by (simp add: onJoin_def Let_def update_conv')

lemma onMove_other:
  "sessionId' \<noteq> sessionId \<Longrightarrow> onMove st sessionId' msg = Inr st' \<Longrightarrow>
     map_of (players st') sessionId = map_of (players st) sessionId"
  by (auto simp: onMove_def update_conv' split: option.splits)

lemma onLeave_other:
  "sessionId' \<noteq> sessionId \<Longrightarrow>
     map_of (players (onLeave allowReconnection st sessionId' consented)) sessionId
       = map_of (players st) sessionId"
  by (simp add: onLeave_def delete_conv' split: reconnection.splits)

lemma step_other:
  "session_of e \<noteq> sessionId \<Longrightarrow> step st e = Inr st' \<Longrightarrow>
     map_of (players st') sessionId = map_of (players st) sessionId"
  by (cases e) (auto simp: onJoin_other onLeave_other dest: onMove_other)

lemma run_other:
  "\<forall>e \<in> set es. session_of e \<noteq> sessionId \<Longrightarrow> run st es = Inr st' \<Longrightarrow>
     map_of (players st') sessionId = map_of (players st) sessionId"
proof (induction es arbitrary: st)
  case Nil
  then show ?case by simp
next
  case (Cons e es)
  from Cons.prems(2) obtain st1 where s1: "step st e = Inr st1" and r1: "run st1 es = Inr st'"
    by (auto split: sum.splits)
  from Cons.prems(1) have o1: "session_of e \<noteq> sessionId"
    and os: "\<forall>e \<in> set es. session_of e \<noteq> sessionId"
    by simp_all
  have "map_of (players st') sessionId = map_of (players st1) sessionId"
    using Cons.IH [OF os r1] .
  also have "\<dots> = map_of (players st) sessionId"
    using step_other [OF o1 s1] .
  finally show ?case .
qed

lemma run_snoc:
  "run st (es @ [e]) = Inr st' \<Longrightarrow> \<exists>st1. run st es = Inr st1 \<and> step st1 e = Inr st'"
  by (induction es arbitrary: st) (auto split: sum.splits)

lemma onLeave_Reconnected:
  "allowReconnection sessionId 5 = Reconnected \<Longrightarrow>
     onLeave allowReconnection st sessionId consented = st"
  by (simp add: onLeave_def)

lemma onLeave_Rejected:
  "allowReconnection sessionId 5 = Rejected \<Longrightarrow>
     map_of (players (onLeave allowReconnection st sessionId consented)) sessionId = None"
  by (simp add: onLeave_def delete_conv')

lemma onJoin_fresh:
  "map_of (players (onJoin st sessionId options)) sessionId =
     Some \<lparr>p_id = sessionId,
           p_name = slice0 32 (option_or options o_name (js ''Guest'')),
           p_avatarKey = option_or options o_avatarKey (js ''a1''),
           p_x = Fin 0, p_y = Fin 1, p_z = Fin (- 2), p_ry = Fin Math_PI\<rparr>"
  by (simp add: onJoin_def Let_def update_conv')

text \<open>
  C6. \<open>onLeave\<close> asks the framework for a reconnection window of 5 seconds. If the
  session reconnects within it, \<open>onLeave\<close> leaves the whole state as it is; and
  whatever the other sessions did while the session was away, its PlayerState is still
  in the players map with the field values it had at the disconnection. If the window
  expires, the PlayerState is deleted from the players map; a later join of that session
  id creates a PlayerState at the spawn point \<open>(0, 1, -2)\<close> facing \<open>Math.PI\<close>.
\<close>

theorem reconnection_keeps_player_and_expiry_removes_it:
  "(allowReconnection sessionId 5 = Reconnected \<longrightarrow>
      onLeave allowReconnection st sessionId consented = st)
   \<and> (allowReconnection sessionId 5 = Rejected \<longrightarrow>
      map_of (players (onLeave allowReconnection st sessionId consented)) sessionId = None)
   \<and> ((\<forall>e \<in> set es. session_of e \<noteq> sessionId) \<and>
       run st (es @ [Leave sessionId consented Reconnected]) = Inr st' \<longrightarrow>
      map_of (players st') sessionId = map_of (players st) sessionId)
   \<and> (run st (es @ [Leave sessionId consented Rejected]) = Inr st' \<longrightarrow>
      map_of (players st') sessionId = None)
   \<and> map_of (players (onJoin st' sessionId options)) sessionId =
        Some \<lparr>p_id = sessionId,
              p_name = slice0 32 (option_or options o_name (js ''Guest'')),
              p_avatarKey = option_or options o_avatarKey (js ''a1''),
              p_x = Fin 0, p_y = Fin 1, p_z = Fin (- 2), p_ry = Fin Math_PI\<rparr>"
proof -
  have a: "(\<forall>e \<in> set es. session_of e \<noteq> sessionId) \<and>
       run st (es @ [Leave sessionId consented Reconnected]) = Inr st' \<longrightarrow>
      map_of (players st') sessionId = map_of (players st) sessionId"
  proof
    assume h: "(\<forall>e \<in> set es. session_of e \<noteq> sessionId) \<and>
       run st (es @ [Leave sessionId consented Reconnected]) = Inr st'"
    then obtain st1 where r: "run st es = Inr st1"
      and s: "step st1 (Leave sessionId consented Reconnected) = Inr st'"
      using run_snoc by blast
    from s have "st' = st1" by (simp add: onLeave_def)
    with run_other [of es sessionId st st1] h r show
      "map_of (players st') sessionId = map_of (players st) sessionId" by simp
  qed
  have b: "run st (es @ [Leave sessionId consented Rejected]) = Inr st' \<longrightarrow>
      map_of (players st') sessionId = None"
  proof
    assume "run st (es @ [Leave sessionId consented Rejected]) = Inr st'"
    then obtain st1 where r: "run st es = Inr st1"
      and s: "step st1 (Leave sessionId consented Rejected) = Inr st'"
      using run_snoc by blast
    from s show "map_of (players st') sessionId = None"
      by (auto simp: onLeave_def delete_conv')
  qed
  show ?thesis
    using a b onLeave_Reconnected [of allowReconnection sessionId st consented]
      onLeave_Rejected [of allowReconnection sessionId st consented]
      onJoin_fresh [of st' sessionId options]
    by simp
qed

text \<open>
  The theorem in a room that A has opened. With a framework that lets a session back in,
  A's leave changes nothing, also after B has joined and moved in the meantime. With
  one that lets the window expire, A's PlayerState is gone, and A's next join creates
  the spawn-point player again.
\<close>

theorem reconnection_keeps_player_and_expiry_removes_it_witness:
  "(\<lambda>c s. if 5 \<le> s then Reconnected else Rejected) (js ''A'') (5::nat) = Reconnected
   \<and> onLeave (\<lambda>c s. if 5 \<le> s then Reconnected else Rejected) room_of_A (js ''A'') False
       = room_of_A
   \<and> (\<lambda>c s. Rejected) (js ''A'') (5::nat) = Rejected
   \<and> map_of (players (onLeave (\<lambda>c s. Rejected) room_of_A (js ''A'') False)) (js ''A'') = None
   \<and> list_all (\<lambda>e. session_of e \<noteq> js ''A'')
        [Join (js ''B'') (wants ''office''),
         Move (js ''B'') (Some \<lparr>m_x = JSNumber (Fin 3), m_y = JSUndefined, m_z = JSUndefined,
                                 m_ry = JSUndefined\<rparr>)]
   \<and> run room_of_A
        ([Join (js ''B'') (wants ''office''),
          Move (js ''B'') (Some \<lparr>m_x = JSNumber (Fin 3), m_y = JSUndefined, m_z = JSUndefined,
                                 m_ry = JSUndefined\<rparr>)]
         @ [Leave (js ''A'') False Reconnected])
      = Inr \<lparr>players = [(js ''A'', guest (js ''A'')),
                         (js ''B'', (guest (js ''B''))\<lparr>p_x := Fin 3\<rparr>)],
             envKey = js ''whitespace''\<rparr>
   \<and> map_of (players room_of_A) (js ''A'') = Some (guest (js ''A''))
   \<and> run room_of_A
        ([Join (js ''B'') (wants ''office'')] @ [Leave (js ''A'') False Rejected])
      = Inr \<lparr>players = [(js ''B'', guest (js ''B''))], envKey = js ''whitespace''\<rparr>
   \<and> map_of (players (onJoin
          \<lparr>players = [(js ''B'', guest (js ''B''))], envKey = js ''whitespace''\<rparr>
          (js ''A'') None)) (js ''A'') = Some (guest (js ''A''))"
  using reconnection_keeps_player_and_expiry_removes_it
    [of "\<lambda>c s. if 5 \<le> s then Reconnected else Rejected" "js ''A''" room_of_A False
        "[Join (js ''B'') (wants ''office''),
          Move (js ''B'') (Some \<lparr>m_x = JSNumber (Fin 3), m_y = JSUndefined, m_z = JSUndefined,
                                 m_ry = JSUndefined\<rparr>)]"
        "\<lparr>players = [(js ''A'', guest (js ''A'')),
                         (js ''B'', (guest (js ''B''))\<lparr>p_x := Fin 3\<rparr>)],
             envKey = js ''whitespace''\<rparr>"]
    reconnection_keeps_player_and_expiry_removes_it
    [of "\<lambda>c s. Rejected" "js ''A''" room_of_A False
        "[Join (js ''B'') (wants ''office'')]"
        "\<lparr>players = [(js ''B'', guest (js ''B''))], envKey = js ''whitespace''\<rparr>" None]
  by (simp add: room_of_A_eq wants_def onJoin_def onMove_def onLeave_def move_fields_def
      guest_def option_or_def slice0_def js_def)


subsection \<open>Chat\<close>

lemma length_slice0: "length (slice0 n s) = min (length s) n"
  by (simp add: slice0_def)

lemma trim_spaces_then_letters:
  "trim (spaces_then_letters m n) = replicate n 0x0061"
proof -
  have ws: "is_white_space 0x0020" and nws: "\<not> is_white_space 0x0061"
    by (simp_all add: is_white_space_def)
  have letters: "dropWhile is_white_space (replicate n 0x0061) = replicate n 0x0061"
    using nws by (cases n) simp_all
  have "dropWhile is_white_space (replicate m 0x0020 @ replicate n 0x0061)
      = dropWhile is_white_space (replicate n 0x0061)"
    by (rule dropWhile_append2) (simp add: ws)
  then have "dropWhile is_white_space (spaces_then_letters m n) = replicate n 0x0061"
    by (simp only: spaces_then_letters_def letters)
  then show ?thesis
    by (simp only: trim_def rev_replicate letters rev_rev_ident)
qed

lemma length_spaces_then_letters: "length (spaces_then_letters m n) = m + n"
  by (simp add: spaces_then_letters_def)

text \<open>
  C7, as the code has it. If the trimmed text is empty, nothing is broadcast. Otherwise
  the handler broadcasts the sender's session id, the sender's name (\<open>Guest\<close> if the
  sender has no PlayerState), the first 500 code units of the trimmed text, and the
  time; the broadcast text is at most 500 code units long. A message whose text is
  600 code units long after trimming is broadcast with exactly 500.
\<close>

theorem chat_dropped_or_truncated:
  "(trim (text_or_empty msg) = [] \<longrightarrow> onChat st now sessionId msg = None)
   \<and> (trim (text_or_empty msg) \<noteq> [] \<longrightarrow>
        onChat st now sessionId msg =
          Some \<lparr>chat_id = sessionId,
                chat_name = (case map_of (players st) sessionId of
                               None \<Rightarrow> js ''Guest'' | Some p \<Rightarrow> p_name p),
                chat_text = slice0 500 (trim (text_or_empty msg)),
                chat_ts = now\<rparr>
        \<and> slice0 500 (trim (text_or_empty msg)) = take 500 (trim (text_or_empty msg))
        \<and> length (slice0 500 (trim (text_or_empty msg))) \<le> 500)
   \<and> (length (trim (text_or_empty msg)) = 600 \<longrightarrow>
        (\<exists>b. onChat st now sessionId msg = Some b \<and> length (chat_text b) = 500))"
  by (auto simp: onChat_def Let_def length_slice0 slice0_def)

text \<open>
  The theorem at a text of 600 spaces, which is dropped, and at a text of 3 spaces and
  600 letters, of which 500 letters are broadcast.
\<close>

theorem chat_dropped_or_truncated_witness:
  "trim (text_or_empty (Some \<lparr>c_text = Some (spaces_then_letters 600 0)\<rparr>)) = []
   \<and> onChat room_of_A 1700000000000 (js ''A'')
        (Some \<lparr>c_text = Some (spaces_then_letters 600 0)\<rparr>) = None
   \<and> length (trim (text_or_empty (Some \<lparr>c_text = Some (spaces_then_letters 3 600)\<rparr>))) = 600
   \<and> onChat room_of_A 1700000000000 (js ''A'')
        (Some \<lparr>c_text = Some (spaces_then_letters 3 600)\<rparr>)
       = Some \<lparr>chat_id = js ''A'', chat_name = js ''Guest'',
               chat_text = replicate 500 0x0061, chat_ts = 1700000000000\<rparr>"
  using chat_dropped_or_truncated [of "Some \<lparr>c_text = Some (spaces_then_letters 600 0)\<rparr>"
      room_of_A 1700000000000 "js ''A''"]
    chat_dropped_or_truncated [of "Some \<lparr>c_text = Some (spaces_then_letters 3 600)\<rparr>"
      room_of_A 1700000000000 "js ''A''"]
  by (simp add: text_or_empty_def trim_spaces_then_letters length_spaces_then_letters
      slice0_def room_of_A_eq guest_def onChat_def)

text \<open>
  C7 as stated fails in its last part: the text is trimmed before it is cut. A chat
  message of 600 characters, 200 spaces followed by 400 letters, is broadcast with 400
  characters, not 500; one of 600 spaces is not broadcast at all.
\<close>

theorem chat_600_counterexample:
  "length (spaces_then_letters 200 400) = 600
   \<and> onChat room_of_A 1700000000000 (js ''A'')
        (Some \<lparr>c_text = Some (spaces_then_letters 200 400)\<rparr>)
       = Some \<lparr>chat_id = js ''A'', chat_name = js ''Guest'',
               chat_text = replicate 400 0x0061, chat_ts = 1700000000000\<rparr>
   \<and> length (replicate 400 (0x0061 :: 16 word)) = 400
   \<and> length (spaces_then_letters 600 0) = 600
   \<and> onChat room_of_A 1700000000000 (js ''A'')
        (Some \<lparr>c_text = Some (spaces_then_letters 600 0)\<rparr>) = None"
  by (simp add: text_or_empty_def trim_spaces_then_letters length_spaces_then_letters
      slice0_def room_of_A_eq guest_def onChat_def)


section \<open>Properties of rounding\<close>

lemma floor_le_rhe: "\<lfloor>t\<rfloor> \<le> round_half_even t"
  by (simp add: round_half_even_def Let_def)

lemma rhe_le_ceiling: "round_half_even t \<le> \<lceil>t\<rceil>"
proof (cases "t = of_int \<lfloor>t\<rfloor>")
  case True
  then have "round_half_even t = \<lfloor>t\<rfloor>" by (simp add: round_half_even_def Let_def)
  then show ?thesis by (simp add: floor_le_ceiling)
next
  case False
  then have "\<lceil>t\<rceil> = \<lfloor>t\<rfloor> + 1" by (simp add: ceiling_altdef)
  then show ?thesis by (simp add: round_half_even_def Let_def)
qed

lemma int_le_rhe: "of_int k \<le> t \<Longrightarrow> k \<le> round_half_even t"
proof -
  assume "of_int k \<le> t"
  then have "k \<le> \<lfloor>t\<rfloor>" by (simp add: le_floor_iff)
  then show ?thesis using floor_le_rhe [of t] by linarith
qed

lemma rhe_le_int: "t \<le> of_int k \<Longrightarrow> round_half_even t \<le> k"
proof -
  assume "t \<le> of_int k"
  then have "\<lceil>t\<rceil> \<le> k" by (simp add: ceiling_le_iff)
  then show ?thesis using rhe_le_ceiling [of t] by linarith
qed

lemma exponent_floor:
  assumes "2 powr of_int e \<le> \<bar>x\<bar>" and "\<bar>x\<bar> < 2 powr of_int (e + 1)"
  shows "\<lfloor>log 2 \<bar>x\<bar>\<rfloor> = e"
proof -
  have "(0::real) < 2 powr of_int e" by simp
  then have pos: "0 < \<bar>x\<bar>" using assms(1) by linarith
  have 1: "of_int e \<le> log 2 \<bar>x\<bar>" using assms(1) pos by (simp add: le_log_iff)
  have 2: "log 2 \<bar>x\<bar> < of_int (e + 1)" using assms(2) pos by (simp add: log_less_iff)
  show ?thesis using 1 2 by (simp add: floor_eq_iff)
qed

lemma round_double_normal:
  assumes "2 ^ 52 \<le> \<bar>x\<bar> * 2 ^ k" and "\<bar>x\<bar> * 2 ^ k < 2 ^ 53" and "k \<le> 1074"
  shows "round_double x = Fin (of_int (round_half_even (x * 2 ^ k)) / 2 ^ k)"
proof -
  have x0: "x \<noteq> 0" using assms(1) by auto
  have k: "(2::real) powr real k = 2 ^ k" by (simp add: powr_realpow)
  have p: "(2::real) powr (52 - real k) = 2 ^ 52 / 2 ^ k"
    by (simp only: powr_diff k) simp
  have p1: "(2::real) powr (53 - real k) = 2 ^ 53 / 2 ^ k"
    by (simp only: powr_diff k) simp
  have lo: "2 powr of_int (52 - int k) \<le> \<bar>x\<bar>"
    using assms(1) by (simp add: p divide_le_eq)
  have "of_int (52 - int k + 1) = 53 - real k" by simp
  then have hi: "\<bar>x\<bar> < 2 powr of_int (52 - int k + 1)"
    using assms(2) by (simp only: p1) (simp add: less_divide_eq)
  have fl: "\<lfloor>log 2 \<bar>x\<bar>\<rfloor> = 52 - int k" using exponent_floor [OF lo hi] .
  have ex: "double_exponent x = 52 - int k" using assms(3) by (simp add: double_exponent_def fl)
  have u: "double_ulp x = 1 / 2 ^ k"
    by (simp add: double_ulp_def ex powr_minus powr_realpow divide_simps)
  let ?m = "round_half_even (x * 2 ^ k)"
  have "\<bar>x * 2 ^ k\<bar> < 2 ^ 53" using assms(2) by (simp add: abs_mult)
  then have b1: "x * 2 ^ k \<le> of_int (2 ^ 53)" and b2: "of_int (- (2 ^ 53)) \<le> x * 2 ^ k"
    by simp_all
  have m1: "?m \<le> 2 ^ 53" using rhe_le_int [OF b1] .
  have m2: "- (2 ^ 53) \<le> ?m" using int_le_rhe [OF b2] .
  have "\<bar>of_int ?m :: real\<bar> \<le> 2 ^ 53" using m1 m2 by (simp add: abs_le_iff)
  moreover have "\<bar>of_int ?m / 2 ^ k :: real\<bar> \<le> \<bar>of_int ?m\<bar>"
  proof -
    have "\<bar>of_int ?m :: real\<bar> * 1 \<le> \<bar>of_int ?m\<bar> * 2 ^ k"
      by (rule mult_left_mono) simp_all
    then show ?thesis by (simp add: divide_le_eq)
  qed
  ultimately have "\<bar>of_int ?m / 2 ^ k :: real\<bar> \<le> 2 ^ 53" by linarith
  moreover have "(2::real) ^ 53 < 2 ^ 1024"
    by (rule power_strict_increasing) simp_all
  moreover have "(2::real) powr 1024 = 2 ^ 1024"
    by (rule powr_numeral) simp
  ultimately have small: "\<not> 2 powr 1024 \<le> \<bar>of_int ?m / 2 ^ k :: real\<bar>" by linarith
  show ?thesis
    using x0 small by (simp add: round_double_def u Let_def)
qed

lemma rhe_minus: "round_half_even (- t) = - round_half_even t"
proof (cases "t = of_int \<lfloor>t\<rfloor>")
  case True
  then obtain k :: int where k: "t = of_int k" ..
  show ?thesis unfolding k by (simp add: round_half_even_def Let_def flip: of_int_minus)
next
  case False
  then have fl: "\<lfloor>- t\<rfloor> = - \<lfloor>t\<rfloor> - 1"
    by (metis ceiling_altdef ceiling_def  add_diff_cancel_right' minus_diff_eq minus_add_distrib uminus_add_conv_diff)
  have "of_int \<lfloor>t\<rfloor> \<le> t" by simp
  then have d: "0 < t - of_int \<lfloor>t\<rfloor>" using False by linarith
  show ?thesis
    using d by (auto simp: round_half_even_def Let_def fl)
qed

lemma exponent_minus: "double_exponent (- x) = double_exponent x"
  by (simp add: double_exponent_def)

lemma ulp_minus: "double_ulp (- x) = double_ulp x"
  by (simp add: double_ulp_def exponent_minus)

lemma ulp_pos: "0 < double_ulp x"
  by (simp add: double_ulp_def)

lemma round_double_minus: "round_double (- x) = js_neg (round_double x)"
  by (simp add: round_double_def ulp_minus rhe_minus Let_def)

lemma is_double_minus: "is_double x \<Longrightarrow> is_double (- x)"
  by (simp add: is_double_def round_double_minus)

lemma exponent_ge: "- 1022 \<le> double_exponent x"
  by (simp add: double_exponent_def)

lemma exponent_upper:
  assumes "x \<noteq> 0"
  shows "\<bar>x\<bar> < 2 powr of_int (double_exponent x + 1)"
proof -
  have "log 2 \<bar>x\<bar> < of_int \<lfloor>log 2 \<bar>x\<bar>\<rfloor> + 1" by linarith
  also have "\<dots> \<le> of_int (double_exponent x + 1)" by (simp add: double_exponent_def)
  finally have "log 2 \<bar>x\<bar> < of_int (double_exponent x + 1)" .
  then show ?thesis using assms by (simp add: log_less_iff)
qed

lemma exponent_lower:
  assumes "x \<noteq> 0" and "- 1022 < double_exponent x"
  shows "2 powr of_int (double_exponent x) \<le> \<bar>x\<bar>"
proof -
  have "double_exponent x = \<lfloor>log 2 \<bar>x\<bar>\<rfloor>" using assms(2) by (simp add: double_exponent_def max_def split: if_splits)
  then have "of_int (double_exponent x) \<le> log 2 \<bar>x\<bar>" by simp
  then show ?thesis using assms(1) by (simp add: le_log_iff)
qed

lemma double_multiple:
  assumes "is_double d" and "d \<noteq> 0"
  shows "d = of_int (round_half_even (d / double_ulp d)) * double_ulp d"
    and "\<bar>d\<bar> < 2 powr 1024"
  using assms by (auto simp: is_double_def round_double_def Let_def split: if_splits)

lemma ulp_split:
  assumes "double_exponent y \<le> double_exponent d"
  shows "double_ulp d = 2 ^ nat (double_exponent d - double_exponent y) * double_ulp y"
proof -
  have "of_int (double_exponent d - 52) = real (nat (double_exponent d - double_exponent y)) + of_int (double_exponent y - 52)"
    using assms by simp
  then have "double_ulp d = 2 powr real (nat (double_exponent d - double_exponent y)) * 2 powr of_int (double_exponent y - 52)"
    unfolding double_ulp_def by (simp only: powr_add)
  then show ?thesis by (simp add: powr_realpow double_ulp_def)
qed

lemma ulp_times_2_52: "2 ^ 52 * double_ulp y = 2 powr of_int (double_exponent y)"
proof -
  have "(2::real) ^ 52 = 2 powr 52" by simp
  then have "2 ^ 52 * double_ulp y = 2 powr 52 * 2 powr of_int (double_exponent y - 52)"
    by (simp only: double_ulp_def)
  also have "\<dots> = 2 powr (52 + of_int (double_exponent y - 52))" by (simp only: powr_add)
  also have "\<dots> = 2 powr of_int (double_exponent y)" by simp
  finally show ?thesis .
qed

lemma double_le_rounded:
  assumes d: "is_double d" and dy: "d \<le> y" and y0: "y \<noteq> 0"
  shows "d \<le> of_int (round_half_even (y / double_ulp y)) * double_ulp y"
proof (cases "d = 0")
  case True
  with dy y0 have "0 < y" by simp
  then have "of_int 0 \<le> y / double_ulp y" using ulp_pos [of y] by simp
  then have "0 \<le> round_half_even (y / double_ulp y)" by (rule int_le_rhe)
  then have "0 \<le> of_int (round_half_even (y / double_ulp y)) * double_ulp y"
    using ulp_pos [of y] by simp
  with True show ?thesis by simp
next
  case False
  note d0 = False
  show ?thesis
  proof (cases "double_exponent y \<le> double_exponent d")
    case True
    define K where "K = round_half_even (d / double_ulp d) * 2 ^ nat (double_exponent d - double_exponent y)"
    have "d = of_int (round_half_even (d / double_ulp d)) * double_ulp d"
      using double_multiple(1) [OF d d0] .
    also have "\<dots> = of_int K * double_ulp y"
      by (simp add: K_def ulp_split [OF True])
    finally have dK: "d = of_int K * double_ulp y" .
    then have "of_int K = d / double_ulp y" using ulp_pos [of y] by simp
    also have "\<dots> \<le> y / double_ulp y" using dy ulp_pos [of y] by (simp add: divide_right_mono)
    finally have "K \<le> round_half_even (y / double_ulp y)" by (rule int_le_rhe)
    then have "(of_int K :: real) \<le> of_int (round_half_even (y / double_ulp y))" by simp
    then have "of_int K * double_ulp y \<le> of_int (round_half_even (y / double_ulp y)) * double_ulp y"
      using ulp_pos [of y] by (simp add: mult_right_mono)
    with dK show ?thesis by simp
  next
    case False
    then have lt: "double_exponent d + 1 \<le> double_exponent y" by simp
    have "\<bar>d\<bar> < 2 powr of_int (double_exponent d + 1)" using exponent_upper [OF d0] .
    also have "\<dots> \<le> 2 powr of_int (double_exponent y)"
      using lt by (simp add: powr_mono del: of_int_add)
    finally have small: "\<bar>d\<bar> < 2 powr of_int (double_exponent y)" .
    have "- 1022 < double_exponent y" using lt exponent_ge [of d] by linarith
    then have big: "2 powr of_int (double_exponent y) \<le> \<bar>y\<bar>" using exponent_lower [OF y0] by simp
    have ypos: "0 < y" using small big dy by linarith
    define c :: int where "c = 2 ^ 52"
    have c: "of_int c * double_ulp y = 2 powr of_int (double_exponent y)"
      using ulp_times_2_52 [of y] by (simp add: c_def)
    have "of_int c * double_ulp y \<le> y" using big ypos by (simp only: c)
    then have "of_int c \<le> y / double_ulp y" using ulp_pos [of y] by (simp add: le_divide_eq)
    then have "c \<le> round_half_even (y / double_ulp y)" by (rule int_le_rhe)
    then have "(of_int c :: real) \<le> of_int (round_half_even (y / double_ulp y))"
      by (simp only: of_int_le_iff)
    then have "of_int c * double_ulp y \<le> of_int (round_half_even (y / double_ulp y)) * double_ulp y"
      using ulp_pos [of y] by (simp add: mult_right_mono)
    then have "2 powr of_int (double_exponent y) \<le> of_int (round_half_even (y / double_ulp y)) * double_ulp y"
      by (simp only: c)
    with small show ?thesis by linarith
  qed
qed

lemma rounded_sign:
  assumes "y < 0"
  shows "of_int (round_half_even (y / double_ulp y)) * double_ulp y \<le> 0"
proof -
  have "y / double_ulp y \<le> of_int 0" using assms ulp_pos [of y] by (simp add: divide_le_0_iff)
  then have "round_half_even (y / double_ulp y) \<le> 0" by (rule rhe_le_int)
  then show ?thesis using ulp_pos [of y] by (simp add: mult_le_0_iff)
qed

lemma round_double_ge:
  assumes d: "is_double d" and dy: "d \<le> y"
  shows "js_le (Fin d) (round_double y)"
proof (cases "y = 0")
  case True
  with dy show ?thesis by (simp add: round_double_def)
next
  case False
  let ?Y = "of_int (round_half_even (y / double_ulp y)) * double_ulp y"
  have dY: "d \<le> ?Y" using double_le_rounded [OF d dy False] .
  show ?thesis
  proof (cases "2 powr 1024 \<le> \<bar>?Y\<bar>")
    case over: True
    show ?thesis
    proof (cases "0 < y")
      case True
      with over False show ?thesis by (simp add: round_double_def Let_def)
    next
      case neg: False
      with False have "y < 0" by simp
      then have "?Y \<le> 0" by (rule rounded_sign)
      with over have "?Y \<le> - (2 powr 1024)" by linarith
      with dY have "d \<le> - (2 powr 1024)" by linarith
      moreover have "(0::real) < 2 powr 1024" by simp
      ultimately have "d \<noteq> 0" and "2 powr 1024 \<le> \<bar>d\<bar>" by linarith+
      then show ?thesis using double_multiple(2) [OF d] by linarith
    qed
  next
    case False
    with \<open>y \<noteq> 0\<close> dY show ?thesis by (simp add: round_double_def Let_def)
  qed
qed

lemma round_double_le:
  assumes d: "is_double d" and dy: "y \<le> d"
  shows "js_le (round_double y) (Fin d)"
proof -
  have "js_le (Fin (- d)) (round_double (- y))"
    using round_double_ge [OF is_double_minus [OF d]] dy by simp
  then show ?thesis
    by (cases "round_double y") (simp_all add: round_double_minus)
qed

section \<open>Properties of the collision index\<close>

subsection \<open>Sums at the entity radius and at the shrink margin\<close>

lemma round_3_2: "round_double (3 / 2) = Fin (3 / 2)"
  using round_double_normal [of "3 / 2" 52] by (simp add: round_half_even_def)

lemma radius_is_double: "round_double double_0_45 = Fin double_0_45"
  using round_double_normal [of double_0_45 54]
  by (simp add: round_half_even_def double_0_45_def)

lemma round_minus_radius: "round_double (- double_0_45) = Fin (- double_0_45)"
  by (simp add: round_double_minus radius_is_double)

lemma round_1_plus_radius: "round_double (1 + double_0_45) = Fin double_1_45"
  using round_double_normal [of "1 + double_0_45" 52]
  by (simp add: round_half_even_def double_0_45_def double_1_45_def)

lemma round_1_minus_radius: "round_double (1 - double_0_45) = Fin double_0_55"
  using round_double_normal [of "1 - double_0_45" 53]
  by (simp add: round_half_even_def double_0_45_def double_0_55_def)

lemma round_2_plus_radius: "round_double (2 + double_0_45) = Fin double_2_45"
  using round_double_normal [of "2 + double_0_45" 51]
  by (simp add: round_half_even_def double_0_45_def double_2_45_def)

lemma round_0_1_plus_radius: "round_double (double_0_1 + double_0_45) = Fin double_0_55"
  using round_double_normal [of "double_0_1 + double_0_45" 53]
  by (simp add: round_half_even_def double_0_45_def double_0_1_def double_0_55_def)

lemma margin_is_double: "round_double double_0_05 = Fin double_0_05"
  using round_double_normal [of double_0_05 57]
  by (simp add: round_half_even_def double_0_05_def)

lemma round_1_minus_margin: "round_double (1 - double_0_05) = Fin double_0_95"
  using round_double_normal [of "1 - double_0_05" 53]
  by (simp add: round_half_even_def double_0_05_def double_0_95_def)

subsection \<open>The query\<close>

lemma anyBoxContains_iff:
  "anyBoxContains bs p \<longleftrightarrow> (\<exists>b \<in> set bs. containsPoint (expandByScalar b radius) p)"
  by (induction bs) (auto simp: Let_def)

lemma probe_height:
  "probe nextPos = \<lparr>v_x = v_x nextPos, v_y = Fin 1.5, v_z = v_z nextPos\<rparr>"
  by (simp add: probe_def PLAYER_GROUND_Y_def round_3_2)

lemma probe_ignores_y: "probe (nextPos\<lparr>v_y := y'\<rparr>) = probe nextPos"
  by (simp add: probe_def)

text \<open>
  The rounding of the sums is followed: with a box whose \<open>max.x\<close> is the double
  \<open>0.1\<close>, the expanded bound is the double \<open>0.55\<close>, which is above the exact sum,
  and a point at the double \<open>0.55\<close> is blocked.
\<close>

lemma isBlocked_at_rounded_bound:
  "isBlocked [fbox (0, 1, 0) (double_0_1, 2, 1)] (fvec double_0_55 0 (1 / 2))
   \<and> double_0_1 + double_0_45 < double_0_55"
  by (simp add: isBlocked_def probe_height containsPoint_def expandByScalar_def addScalar_def
      fbox_def fvec_def radius_def round_minus_radius round_1_plus_radius
      round_1_minus_radius round_2_plus_radius round_0_1_plus_radius)
    (simp add: double_0_45_def double_0_55_def double_1_45_def double_2_45_def double_0_1_def)

lemma square_part_le:
  fixes d e f r :: real
  assumes "d\<^sup>2 + e\<^sup>2 + f\<^sup>2 \<le> r\<^sup>2" and "0 \<le> r"
  shows "\<bar>d\<bar> \<le> r"
proof -
  have "d\<^sup>2 \<le> d\<^sup>2 + e\<^sup>2 + f\<^sup>2" by simp
  with assms(1) have "d\<^sup>2 \<le> r\<^sup>2" by linarith
  then have "\<bar>d\<bar> \<le> \<bar>r\<bar>" by (simp add: abs_le_square_iff)
  then show ?thesis using assms(2) by simp
qed

lemma clamp_near:
  "lo \<le> hi \<Longrightarrow> \<bar>v - clamp lo hi v\<bar> \<le> r \<Longrightarrow> lo - r \<le> v \<and> v \<le> hi + r"
  by (auto simp: clamp_def max_def min_def split: if_splits)

lemma between_rounded_bounds:
  assumes "is_double v" and "lo - r \<le> v \<and> v \<le> hi + r"
  shows "js_le (js_add (Fin lo) (js_neg (Fin r))) (Fin v)
         \<and> js_le (Fin v) (js_add (Fin hi) (Fin r))"
  using round_double_le [OF assms(1), of "lo + - r"] round_double_ge [OF assms(1), of "hi + r"]
    assms(2)
  by simp

lemma is_double_3_2: "is_double (3 / 2)"
  by (simp add: is_double_def round_3_2)

lemma sphere_imp_contains:
  assumes "is_double px" "is_double pz" "a \<le> d" "b \<le> e" "c \<le> f"
    and "sphereTouchesBox (px, 3 / 2, pz) double_0_45 (a, b, c) (d, e, f)"
  shows "containsPoint (expandByScalar (fbox (a, b, c) (d, e, f)) radius) (probe (fvec px py pz))"
proof -
  let ?dx = "px - clamp a d px" and ?dy = "3 / 2 - clamp b e (3 / 2)"
    and ?dz = "pz - clamp c f pz"
  have r0: "0 \<le> double_0_45" by (simp add: double_0_45_def)
  have s: "?dx\<^sup>2 + ?dy\<^sup>2 + ?dz\<^sup>2 \<le> double_0_45\<^sup>2"
    using assms(6) by (simp add: sphereTouchesBox_def)
  have x: "\<bar>?dx\<bar> \<le> double_0_45" using square_part_le [OF s r0] .
  have sy: "?dy\<^sup>2 + ?dz\<^sup>2 + ?dx\<^sup>2 \<le> double_0_45\<^sup>2" using s by linarith
  have y: "\<bar>?dy\<bar> \<le> double_0_45" using square_part_le [OF sy r0] .
  have sz: "?dz\<^sup>2 + ?dx\<^sup>2 + ?dy\<^sup>2 \<le> double_0_45\<^sup>2" using s by linarith
  have z: "\<bar>?dz\<bar> \<le> double_0_45" using square_part_le [OF sz r0] .
  from between_rounded_bounds [OF assms(1) clamp_near [OF assms(3) x]]
    between_rounded_bounds [OF is_double_3_2 clamp_near [OF assms(4) y]]
    between_rounded_bounds [OF assms(2) clamp_near [OF assms(5) z]]
  show ?thesis
    by (simp add: containsPoint_def expandByScalar_def addScalar_def fbox_def fvec_def
        radius_def probe_height)
qed


text \<open>
  C3, as the code has it. \<open>isBlocked\<close> is true exactly when the probe lies inside some
  collision box expanded by the entity radius on every axis, the expanded bounds being
  the rounded sums the code computes. The probe has the \<open>x\<close> and \<open>z\<close> of the queried
  point and the height \<open>0.5 + 1.0\<close>, so the answer does not depend on the queried
  point's own \<open>y\<close>. For a queried point whose \<open>x\<close> and \<open>z\<close> are doubles, a sphere
  of that radius around the probe that reaches an unexpanded box, \<open>min \<le> max\<close>, makes
  \<open>isBlocked\<close> true; the converse is not claimed.
\<close>

theorem isBlocked_tests_probe_against_expanded_boxes:
  "(isBlocked colliderBoxes nextPos \<longleftrightarrow>
      (\<exists>b \<in> set colliderBoxes. containsPoint (expandByScalar b radius) (probe nextPos)))
   \<and> probe nextPos = \<lparr>v_x = v_x nextPos, v_y = Fin 1.5, v_z = v_z nextPos\<rparr>
   \<and> isBlocked colliderBoxes (nextPos\<lparr>v_y := y'\<rparr>) = isBlocked colliderBoxes nextPos
   \<and> (is_double px \<and> is_double pz
        \<and> a \<le> d \<and> b \<le> e \<and> c \<le> f \<and> fbox (a, b, c) (d, e, f) \<in> set colliderBoxes
        \<and> sphereTouchesBox (px, 3 / 2, pz) double_0_45 (a, b, c) (d, e, f)
      \<longrightarrow> isBlocked colliderBoxes (fvec px py pz))"
proof -
  have 1: "isBlocked colliderBoxes nextPos \<longleftrightarrow>
      (\<exists>b \<in> set colliderBoxes. containsPoint (expandByScalar b radius) (probe nextPos))"
    by (simp add: isBlocked_def anyBoxContains_iff)
  have 2: "isBlocked colliderBoxes (nextPos\<lparr>v_y := y'\<rparr>) = isBlocked colliderBoxes nextPos"
    by (simp add: isBlocked_def probe_ignores_y)
  have 3: "is_double px \<and> is_double pz
        \<and> a \<le> d \<and> b \<le> e \<and> c \<le> f \<and> fbox (a, b, c) (d, e, f) \<in> set colliderBoxes
        \<and> sphereTouchesBox (px, 3 / 2, pz) double_0_45 (a, b, c) (d, e, f)
      \<longrightarrow> isBlocked colliderBoxes (fvec px py pz)"
  proof
    assume h: "is_double px \<and> is_double pz
        \<and> a \<le> d \<and> b \<le> e \<and> c \<le> f \<and> fbox (a, b, c) (d, e, f) \<in> set colliderBoxes
        \<and> sphereTouchesBox (px, 3 / 2, pz) double_0_45 (a, b, c) (d, e, f)"
    then have "containsPoint (expandByScalar (fbox (a, b, c) (d, e, f)) radius)
        (probe (fvec px py pz))"
      using sphere_imp_contains by blast
    with h show "isBlocked colliderBoxes (fvec px py pz)"
      unfolding isBlocked_def anyBoxContains_iff by blast
  qed
  show ?thesis using 1 2 3 probe_height by blast
qed

text \<open>
  The theorem at the box from \<open>(0, 1, 0)\<close> to \<open>(1, 2, 1)\<close> and a point 0.25 beside one
  of its faces: the sphere reaches the box, and the point is blocked, whatever its
  \<open>y\<close>.
\<close>

theorem isBlocked_tests_probe_against_expanded_boxes_witness:
  "is_double (5 / 4) \<and> is_double (1 / 2)
   \<and> (0::real) \<le> 1 \<and> (1::real) \<le> 2
   \<and> fbox (0, 1, 0) (1, 2, 1) \<in> set [fbox (0, 1, 0) (1, 2, 1)]
   \<and> sphereTouchesBox (5 / 4, 3 / 2, 1 / 2) double_0_45 (0, 1, 0) (1, 2, 1)
   \<and> isBlocked [fbox (0, 1, 0) (1, 2, 1)] (fvec (5 / 4) 7 (1 / 2))
   \<and> isBlocked [fbox (0, 1, 0) (1, 2, 1)] ((fvec (5 / 4) 7 (1 / 2))\<lparr>v_y := Fin (1 / 2)\<rparr>)"
proof -
  have d1: "is_double (5 / 4)"
    using round_double_normal [of "5 / 4" 52] by (simp add: is_double_def round_half_even_def)
  have d2: "is_double (1 / 2)"
    using round_double_normal [of "1 / 2" 53] by (simp add: is_double_def round_half_even_def)
  have s: "sphereTouchesBox (5 / 4, 3 / 2, 1 / 2) double_0_45 (0, 1, 0) (1, 2, 1)"
    by (simp add: sphereTouchesBox_def clamp_def double_0_45_def power2_eq_square)
  have m: "fbox (0, 1, 0) (1, 2, 1) \<in> set [fbox (0, 1, 0) (1, 2, 1)]" by simp
  have le: "(0::real) \<le> 1" "(1::real) \<le> 2" by simp_all
  note t = isBlocked_tests_probe_against_expanded_boxes
      [where colliderBoxes = "[fbox (0, 1, 0) (1, 2, 1)]" and nextPos = "fvec (5 / 4) 7 (1 / 2)"
         and y' = "Fin (1 / 2)" and a = 0 and b = 1 and c = 0 and d = 1 and e = 2 and f = 1
         and px = "5 / 4" and py = 7 and pz = "1 / 2"]
  from t d1 d2 s m le have b: "isBlocked [fbox (0, 1, 0) (1, 2, 1)] (fvec (5 / 4) 7 (1 / 2))"
    by blast
  from t b have y:
    "isBlocked [fbox (0, 1, 0) (1, 2, 1)] ((fvec (5 / 4) 7 (1 / 2))\<lparr>v_y := Fin (1 / 2)\<rparr>)"
    by blast
  show ?thesis using d1 d2 s m le b y by blast
qed

text \<open>
  C3 as stated fails in its second part: the expanded-box test is not equivalent to the
  sphere test. For the box from \<open>(0, 1, 0)\<close> to \<open>(1, 2, 1)\<close> and the point
  \<open>(1.4375, 0.5, 1.4375)\<close>, whose coordinates are doubles, the probe
  \<open>(1.4375, 1.5, 1.4375)\<close> lies inside the expanded box, whose bounds in \<open>x\<close> and
  \<open>z\<close> are the doubles \<open>-0.45\<close> and \<open>1.45\<close>, so \<open>isBlocked\<close> is true; but the
  probe is \<open>0.4375\<close> away from the box in \<open>x\<close> and in \<open>z\<close>, farther than
  \<open>0.45\<close> from its edge, so the sphere does not reach the box.
\<close>

theorem isBlocked_not_sphere_counterexample:
  "isBlocked [fbox (0, 1, 0) (1, 2, 1)] (fvec (23 / 16) (1 / 2) (23 / 16))
   \<and> \<not> sphereTouchesBox (23 / 16, 3 / 2, 23 / 16) double_0_45 (0, 1, 0) (1, 2, 1)
   \<and> round_double (23 / 16) = Fin (23 / 16)"
proof -
  have b: "isBlocked [fbox (0, 1, 0) (1, 2, 1)] (fvec (23 / 16) (1 / 2) (23 / 16))"
    by (simp add: isBlocked_def probe_height containsPoint_def expandByScalar_def
        addScalar_def fbox_def fvec_def radius_def round_minus_radius round_1_plus_radius
        round_1_minus_radius round_2_plus_radius)
      (simp add: double_0_45_def double_0_55_def double_1_45_def double_2_45_def)
  have s: "\<not> sphereTouchesBox (23 / 16, 3 / 2, 23 / 16) double_0_45 (0, 1, 0) (1, 2, 1)"
    by (simp add: sphereTouchesBox_def clamp_def double_0_45_def power2_eq_square)
  have d: "round_double (23 / 16) = Fin (23 / 16)"
    using round_double_normal [of "23 / 16" 52] by (simp add: round_half_even_def)
  show ?thesis using b s d by simp
qed

subsection \<open>The build\<close>

lemma boxes_visit:
  "boxes (visit applyMatrix4 s obj) =
     boxes s @ (case worldBox applyMatrix4 obj of
                  None \<Rightarrow> []
                | Some w \<Rightarrow> if Number_isFinite (v_x (b_min w)) then [w] else [])"
  by (simp add: visit_def worldBox_def Let_def split: option.splits)

lemma boxes_foldl:
  "boxes (foldl (visit applyMatrix4) s objs) =
     boxes s @ filter (\<lambda>w. Number_isFinite (v_x (b_min w)))
                 (List.map_filter (worldBox applyMatrix4) objs)"
proof (induction objs arbitrary: s)
  case Nil
  then show ?case by (simp add: List.map_filter_simps)
next
  case (Cons obj objs)
  show ?case
    by (simp add: Cons.IH boxes_visit List.map_filter_simps split: option.splits)
qed

text \<open>
  C4 fails on the code. For a single proxy mesh whose world-space box is the unit cube,
  the stored box is the unit cube itself. Its \<open>x\<close> and \<open>z\<close> extents are not shrunk:
  the shrunk box, from \<open>(0.05, 0, 0.05)\<close> to \<open>(0.95, 1, 0.95)\<close> in doubles, is what
  \<open>tempBox\<close> holds after the push, and nothing reads it before the next mesh
  overwrites it.
\<close>

theorem stored_box_is_not_shrunk:
  "buildColliderBoxes (\<lambda>b m. b) [mesh unitCube] = [unitCube]
   \<and> shrinkTemp unitCube = fbox (double_0_05, 0, double_0_05) (double_0_95, 1, double_0_95)
   \<and> unitCube \<noteq> fbox (double_0_05, 0, double_0_05) (double_0_95, 1, double_0_95)"
proof -
  have stored: "buildColliderBoxes (\<lambda>b m. b) [mesh unitCube] = [unitCube]"
    by (simp add: buildColliderBoxes_def visit_def mesh_def unitCube_def fbox_def fvec_def
        Let_def)
  have shrunk: "shrinkTemp unitCube
      = fbox (double_0_05, 0, double_0_05) (double_0_95, 1, double_0_95)"
    by (simp add: shrinkTemp_def js_sub_def Let_def unitCube_def fbox_def fvec_def
        margin_is_double round_1_minus_margin)
  have differ: "unitCube \<noteq> fbox (double_0_05, 0, double_0_05) (double_0_95, 1, double_0_95)"
    by (simp add: unitCube_def fbox_def fvec_def double_0_05_def)
  show ?thesis using stored shrunk differ by simp
qed

text \<open>
  C5, as the code has it. Every box stored by a build has a finite \<open>min.x\<close>. The
  build stores one box for each proxy mesh whose world-space box has a finite
  \<open>min.x\<close>, in traversal order, and none for a mesh whose world-space box has not:
  that mesh is discarded. No other extent is tested, and \<open>min\<close> is not compared
  with \<open>max\<close>.
\<close>

theorem stored_boxes_have_finite_min_x:
  "(\<forall>b \<in> set (buildColliderBoxes applyMatrix4 objs). Number_isFinite (v_x (b_min b)))
   \<and> length (buildColliderBoxes applyMatrix4 objs) =
       length (filter (\<lambda>w. Number_isFinite (v_x (b_min w)))
                 (List.map_filter (worldBox applyMatrix4) objs))"
  by (simp add: buildColliderBoxes_def boxes_foldl)

text \<open>
  The theorem at a traversal of a group node, a cube, a mesh with empty geometry (its
  box is the empty box, with infinite extents) and a flat floor: two boxes are stored,
  one for the cube and one for the floor, and none for the empty box.
\<close>

theorem stored_boxes_have_finite_min_x_witness:
  "list_all (\<lambda>b. Number_isFinite (v_x (b_min b)))
     (buildColliderBoxes (\<lambda>b m. b) [group, mesh unitCube, mesh new_Box3, mesh floorPlane])
   \<and> length (buildColliderBoxes (\<lambda>b m. b)
        [group, mesh unitCube, mesh new_Box3, mesh floorPlane]) = 2
   \<and> List.map_filter (worldBox (\<lambda>b m. b))
        [group, mesh unitCube, mesh new_Box3, mesh floorPlane]
       = [unitCube, new_Box3, floorPlane]
   \<and> Number_isFinite (v_x (b_min unitCube))
   \<and> \<not> Number_isFinite (v_x (b_min new_Box3))
   \<and> Number_isFinite (v_x (b_min floorPlane))"
  using stored_boxes_have_finite_min_x
    [of "\<lambda>b m. b" "[group, mesh unitCube, mesh new_Box3, mesh floorPlane]"]
  by (simp add: buildColliderBoxes_def visit_def Let_def
      List.map_filter_simps worldBox_def mesh_def group_def unitCube_def
      floorPlane_def new_Box3_def fbox_def fvec_def)

text \<open>
  C5 as stated fails. A flat proxy mesh, whose world-space box runs from \<open>(0, 0, 0)\<close> to
  \<open>(1, 0, 1)\<close>, is stored although its \<open>min.y\<close> is not below its \<open>max.y\<close>; and a
  box with a finite \<open>min.x\<close> and an infinite \<open>max.y\<close> is stored although its
  extents are not finite.
\<close>

theorem stored_box_degenerate_counterexample:
  "buildColliderBoxes (\<lambda>b m. b) [mesh floorPlane] = [floorPlane]
   \<and> \<not> minBelowMax floorPlane
   \<and> buildColliderBoxes (\<lambda>b m. b)
        [mesh \<lparr>b_min = fvec 0 0 0, b_max = \<lparr>v_x = Fin 1, v_y = PosInf, v_z = Fin 1\<rparr>\<rparr>]
      = [\<lparr>b_min = fvec 0 0 0, b_max = \<lparr>v_x = Fin 1, v_y = PosInf, v_z = Fin 1\<rparr>\<rparr>]
   \<and> \<not> finiteExtents \<lparr>b_min = fvec 0 0 0, b_max = \<lparr>v_x = Fin 1, v_y = PosInf, v_z = Fin 1\<rparr>\<rparr>"
  by (simp add: buildColliderBoxes_def visit_def mesh_def floorPlane_def fbox_def fvec_def
      Let_def minBelowMax_def js_lt_def finiteExtents_def)

section \<open>Properties of the animation state\<close>

lemma onFinished_Wave_pow:
  "(onFinished Wave ^^ Suc n) rig =
     rig\<lparr>finishedListeners := finishedListeners rig - Suc n,
         emoteActive := False, current := Idle\<rparr>"
  by (induction n) (simp_all add: onFinished_def)

lemma onFinished_other_pow: "action \<noteq> Wave \<Longrightarrow> (onFinished action ^^ n) rig = rig"
  by (induction n) (simp_all add: onFinished_def)

lemma wave_returns_to_idle:
  assumes "\<not> emoteActive rig"
  shows "dispatchFinished (playWave rig) Wave =
     rig\<lparr>finishedListeners := 0, emoteActive := False, current := Idle\<rparr>"
proof -
  have n: "finishedListeners (playWave rig) = Suc (finishedListeners rig)"
    using assms by (simp add: playWave_def)
  have "dispatchFinished (playWave rig) Wave
      = (onFinished Wave ^^ Suc (finishedListeners rig)) (playWave rig)"
    by (simp only: dispatchFinished_def n)
  also have "\<dots> = (playWave rig)\<lparr>finishedListeners :=
      finishedListeners (playWave rig) - Suc (finishedListeners rig),
      emoteActive := False, current := Idle\<rparr>"
    by (rule onFinished_Wave_pow)
  also have "\<dots> = rig\<lparr>finishedListeners := 0, emoteActive := False, current := Idle\<rparr>"
    using assms by (simp add: playWave_def)
  finally show ?thesis .
qed

text \<open>
  C8. The wave state of a rig is its flag \<open>emoteActive\<close>. A wave trigger on a rig
  whose wave is not active makes it active, and when the mixer then reports the wave
  clip complete, the wave is no longer active and the current animation is idle. The
  completion of any other clip changes nothing. While the wave is active, a second wave
  trigger leaves the rig as it is, and so does every request for the idle or the walk
  animation.
\<close>

theorem wave_is_one_shot:
  "(\<not> emoteActive rig \<longrightarrow>
      emoteActive (playWave rig)
      \<and> \<not> emoteActive (dispatchFinished (playWave rig) Wave)
      \<and> current (dispatchFinished (playWave rig) Wave) = Idle)
   \<and> (action \<noteq> Wave \<longrightarrow> dispatchFinished rig action = rig)
   \<and> (emoteActive rig \<longrightarrow> playWave rig = rig)
   \<and> (emoteActive rig \<longrightarrow> setBaseAnim rig next = rig)"
  using wave_returns_to_idle [of rig] onFinished_other_pow [of action "finishedListeners rig" rig]
  by (simp add: playWave_def setBaseAnim_def dispatchFinished_def)

text \<open>
  The theorem at a walking rig: the wave starts; a second trigger, an idle request and
  the completion of the walk clip change nothing; the completion of the wave clip leaves
  an idle rig with no listener.
\<close>

theorem wave_is_one_shot_witness:
  "\<not> emoteActive (setBaseAnim new_rig Walk)
   \<and> playWave (setBaseAnim new_rig Walk)
       = \<lparr>current = Walk, emoteActive = True, finishedListeners = 1\<rparr>
   \<and> emoteActive (playWave (setBaseAnim new_rig Walk))
   \<and> playWave (playWave (setBaseAnim new_rig Walk)) = playWave (setBaseAnim new_rig Walk)
   \<and> setBaseAnim (playWave (setBaseAnim new_rig Walk)) Idle
       = playWave (setBaseAnim new_rig Walk)
   \<and> Walk \<noteq> Wave
   \<and> dispatchFinished (playWave (setBaseAnim new_rig Walk)) Walk
       = playWave (setBaseAnim new_rig Walk)
   \<and> dispatchFinished (playWave (setBaseAnim new_rig Walk)) Wave
       = \<lparr>current = Idle, emoteActive = False, finishedListeners = 0\<rparr>"
  using wave_is_one_shot [of "setBaseAnim new_rig Walk" Walk Idle]
    wave_is_one_shot [of "playWave (setBaseAnim new_rig Walk)" Walk Idle]
  by (simp add: playWave_def setBaseAnim_def dispatchFinished_def onFinished_def new_rig_def)


end
